theory Spec2Isabelle
  imports Complex_Main
begin

section \<open>The asteroid environment of \<^verbatim>\<open>main3.py\<close>\<close>

text \<open>
  A shallow embedding of the class \<^verbatim>\<open>AsteroidEnv\<close>. The object's fields are a record that
  every method takes and returns. Python integers are \<^typ>\<open>int\<close>. Python floats are read as
  \<^typ>\<open>real\<close>: the coordinates of the player, the obstacles and the projectiles are integer
  valued, so the float arithmetic on them is exact, while the score, the sample points of the
  lidar and \<^verbatim>\<open>math.hypot\<close> are taken without rounding. The random generator and the pygame
  event queue are outside the class: the generator is a stream of naturals carried in the
  record, the keyboard state and the pending events are arguments of \<open>step\<close>. An exception
  is the result \<open>Inl\<close>. Rendering is not modelled.
\<close>

subsection \<open>Game constants\<close>

definition WIDTH :: int where "WIDTH = 800"
definition HEIGHT :: int where "HEIGHT = 600"
definition PLAYER_SPEED :: int where "PLAYER_SPEED = 3"
definition SIDE_SPEED :: int where "SIDE_SPEED = 4"
definition ASTEROID_COUNT :: nat where "ASTEROID_COUNT = 8"
definition ASTEROID_SPEED :: int where "ASTEROID_SPEED = 2"
definition LIDAR_RAYS :: nat where "LIDAR_RAYS = 24"
definition LIDAR_RANGE :: nat where "LIDAR_RANGE = 200"
definition MAX_BLASTS :: int where "MAX_BLASTS = 5"
definition BLAST_RECHARGE_TIME :: int where "BLAST_RECHARGE_TIME = 60"
definition FPS :: int where "FPS = 60"

subsection \<open>Data\<close>

text \<open>The dictionaries \<^verbatim>\<open>{"x", "y", "radius", "speed"}\<close> and \<^verbatim>\<open>{"x", "y"}\<close>.\<close>

record asteroid =
  a_x :: int
  a_y :: int
  a_radius :: int
  a_speed :: int

record blast =
  b_x :: int
  b_y :: real

text \<open>
  The fields of \<^verbatim>\<open>self\<close> (\<open>self_x\<close>, \<open>self_y\<close> for \<^verbatim>\<open>self.x\<close>, \<^verbatim>\<open>self.y\<close>), and the state of the
  module \<^verbatim>\<open>random\<close>: the stream \<open>rng_seed\<close> and the number \<open>rng_pos\<close> of draws made so far.
\<close>

record env =
  self_x :: int
  self_y :: real
  radius :: int
  blasts :: int
  last_recharge :: real
  score :: real
  start_time :: real
  alive :: bool
  asteroids :: "asteroid list"
  blasts_list :: "blast list"
  rng_seed :: "nat \<Rightarrow> nat"
  rng_pos :: nat

datatype key = K_LEFT | K_RIGHT | K_SPACE | K_OTHER nat

text \<open>A pygame event: its type, and the key of a \<^verbatim>\<open>KEYDOWN\<close>.\<close>

datatype event = QUIT | KEYDOWN key | OTHER_EVENT nat

text \<open>Python values that occur as the action argument and in the info dictionary.\<close>

datatype pyobj = PyNone | PyBool bool | PyInt int | PyFloat real | PyStr string

datatype error = ValueError

type_synonym step_result = "real list option \<times> real \<times> bool \<times> (string \<rightharpoonup> pyobj)"

text \<open>The dictionary \<^verbatim>\<open>{}\<close>.\<close>

definition empty_dict :: "string \<rightharpoonup> pyobj" where
  "empty_dict = Map.empty"

subsection \<open>Helpers\<close>

text \<open>\<^verbatim>\<open>math.hypot(a[0] - b[0], a[1] - b[1])\<close>\<close>

definition distance :: "real \<times> real \<Rightarrow> real \<times> real \<Rightarrow> real" where
  "distance a b = sqrt ((fst a - fst b)\<^sup>2 + (snd a - snd b)\<^sup>2)"

text \<open>\<^verbatim>\<open>np.clip(v, lo, hi)\<close> is \<^verbatim>\<open>minimum(maximum(v, lo), hi)\<close>.\<close>

definition clip :: "'a::linorder \<Rightarrow> 'a \<Rightarrow> 'a \<Rightarrow> 'a" where
  "clip v lo hi = min (max v lo) hi"

text \<open>
  \<^verbatim>\<open>random.randint(a, b)\<close> returns an integer \<open>N\<close> with \<open>a \<le> N \<le> b\<close>: the next element
  of the stream, reduced into that range.
\<close>

definition randint :: "int \<Rightarrow> int \<Rightarrow> env \<Rightarrow> int \<times> env" where
  "randint a b s =
     (a + int (rng_seed s (rng_pos s) mod nat (b - a + 1)), s\<lparr>rng_pos := Suc (rng_pos s)\<rparr>)"

text \<open>\<^verbatim>\<open>range(start, stop, step)\<close> for naturals and \<open>step > 0\<close>.\<close>

definition py_range :: "nat \<Rightarrow> nat \<Rightarrow> nat \<Rightarrow> nat list" where
  "py_range start stop stp =
     map (\<lambda>k. start + k * stp) [0 ..< (stop - start + stp - 1) div stp]"

text \<open>\<^verbatim>\<open>np.linspace(start, stop, num, endpoint=False)\<close>\<close>

definition linspace :: "real \<Rightarrow> real \<Rightarrow> nat \<Rightarrow> real list" where
  "linspace start stop num =
     map (\<lambda>i. start + real i * ((stop - start) / real num)) [0 ..< num]"

definition radians :: "real \<Rightarrow> real" where
  "radians d = d * pi / 180"

subsection \<open>Spawning\<close>

definition new_asteroid :: "env \<Rightarrow> asteroid \<times> env" where
  "new_asteroid s =
     (let (vx, s1) = randint 0 WIDTH s;
          (vy, s2) = randint (- HEIGHT) 0 s1;
          (vr, s3) = randint 15 40 s2
      in (\<lparr>a_x = vx, a_y = vy, a_radius = vr, a_speed = ASTEROID_SPEED\<rparr>, s3))"

text \<open>\<^verbatim>\<open>[self._new_asteroid() for _ in range(n)]\<close>\<close>

fun spawn_asteroids :: "nat \<Rightarrow> env \<Rightarrow> asteroid list \<times> env" where
  "spawn_asteroids 0 s = ([], s)"
| "spawn_asteroids (Suc n) s =
     (let (a, s1) = new_asteroid s;
          (rest, s2) = spawn_asteroids n s1
      in (a # rest, s2))"

subsection \<open>The lidar\<close>

text \<open>
  One ray: the inner loop over \<^verbatim>\<open>range(0, LIDAR_RANGE, 5)\<close>. The result is the first radius
  whose sample point is outside the window or inside an asteroid, and \<open>LIDAR_RANGE\<close> when
  there is none.
\<close>

fun march :: "env \<Rightarrow> real \<Rightarrow> real \<Rightarrow> nat list \<Rightarrow> nat" where
  "march s dx dy [] = LIDAR_RANGE"
| "march s dx dy (r # rs) =
     (let rx = real_of_int (self_x s) + dx * real r;
          ry = self_y s + dy * real r
      in if rx < 0 \<or> rx \<ge> real_of_int WIDTH \<or> ry < 0 \<or> ry \<ge> real_of_int HEIGHT then r
         else if list_ex (\<lambda>a. distance (rx, ry) (real_of_int (a_x a), real_of_int (a_y a))
                               \<le> real_of_int (a_radius a)) (asteroids s) then r
         else march s dx dy rs)"

definition get_lidar :: "env \<Rightarrow> real list" where
  "get_lidar s =
     map (\<lambda>angle.
            let dx = cos (radians angle);
                dy = sin (radians angle);
                dist = march s dx dy (py_range 0 LIDAR_RANGE 5)
            in real dist / real LIDAR_RANGE)
         (linspace 0 360 LIDAR_RAYS)"

definition get_observation :: "env \<Rightarrow> real list" where
  "get_observation s = get_lidar s"

subsection \<open>Reset\<close>

text \<open>The two arguments are the two readings of \<^verbatim>\<open>time.time()\<close>.\<close>

definition reset :: "real \<Rightarrow> real \<Rightarrow> env \<Rightarrow> real list \<times> env" where
  "reset t1 t2 s =
     (let s1 = s\<lparr>self_x := WIDTH div 2,
                 self_y := real_of_int HEIGHT * 0.75,
                 radius := 15,
                 blasts := MAX_BLASTS,
                 last_recharge := t1,
                 score := 0,
                 start_time := t2,
                 alive := True\<rparr>;
          (new, s2) = spawn_asteroids ASTEROID_COUNT s1;
          s3 = s2\<lparr>asteroids := new, blasts_list := []\<rparr>
      in (get_observation s3, s3))"

text \<open>
  The constructor: an object whose fields are not yet set (the values given here are
  all overwritten, the generator apart), then \<^verbatim>\<open>self.reset()\<close>.
\<close>

definition new_env :: "(nat \<Rightarrow> nat) \<Rightarrow> env" where
  "new_env seed =
     \<lparr>self_x = 0, self_y = 0, radius = 0, blasts = 0, last_recharge = 0, score = 0,
      start_time = 0, alive = False, asteroids = [], blasts_list = [],
      rng_seed = seed, rng_pos = 0\<rparr>"

definition init :: "(nat \<Rightarrow> nat) \<Rightarrow> real \<Rightarrow> real \<Rightarrow> env" where
  "init seed t1 t2 = snd (reset t1 t2 (new_env seed))"

subsection \<open>The updates of one tick\<close>

text \<open>
  The comprehension of \<^verbatim>\<open>_move_asteroids\<close>: an asteroid is kept while
  \<^verbatim>\<open>a["y"] - a["radius"] <= HEIGHT\<close> and is replaced by a new one otherwise.
\<close>

fun respawn_offscreen :: "asteroid list \<Rightarrow> env \<Rightarrow> asteroid list \<times> env" where
  "respawn_offscreen [] s = ([], s)"
| "respawn_offscreen (a # rest) s =
     (if a_y a - a_radius a \<le> HEIGHT
      then (let (rest', s1) = respawn_offscreen rest s in (a # rest', s1))
      else (let (n, s1) = new_asteroid s;
                (rest', s2) = respawn_offscreen rest s1
            in (n # rest', s2)))"

definition move_asteroids :: "env \<Rightarrow> env" where
  "move_asteroids s =
     (let moved = map (\<lambda>a. a\<lparr>a_y := a_y a + a_speed a\<rparr>) (asteroids s);
          (kept, s1) = respawn_offscreen moved (s\<lparr>asteroids := moved\<rparr>)
      in s1\<lparr>asteroids := kept\<rparr>)"

definition move_player :: "(key \<Rightarrow> bool) \<Rightarrow> env \<Rightarrow> env" where
  "move_player keys s =
     (let s1 = s\<lparr>self_y := self_y s - real_of_int PLAYER_SPEED\<rparr>;
          s2 = s1\<lparr>self_y := clip (self_y s1) (real_of_int HEIGHT * 0.5)
                                              (real_of_int HEIGHT * 0.75)\<rparr>;
          s3 = (if keys K_LEFT then s2\<lparr>self_x := self_x s2 - SIDE_SPEED\<rparr> else s2);
          s4 = (if keys K_RIGHT then s3\<lparr>self_x := self_x s3 + SIDE_SPEED\<rparr> else s3)
      in s4\<lparr>self_x := clip (self_x s4) (WIDTH div 2 - 150) (WIDTH div 2 + 150)\<rparr>)"

definition shoot :: "env \<Rightarrow> env" where
  "shoot s =
     (if blasts s > 0
      then s\<lparr>blasts := blasts s - 1,
             blasts_list := blasts_list s @ [\<lparr>b_x = self_x s, b_y = self_y s\<rparr>]\<rparr>
      else s)"

definition move_blasts :: "env \<Rightarrow> env" where
  "move_blasts s =
     s\<lparr>blasts_list := filter (\<lambda>b. b_y b > 0)
                          (map (\<lambda>b. b\<lparr>b_y := b_y b - 7\<rparr>) (blasts_list s))\<rparr>"

definition check_collisions :: "env \<Rightarrow> bool" where
  "check_collisions s =
     list_ex (\<lambda>a. distance (real_of_int (self_x s), self_y s)
                           (real_of_int (a_x a), real_of_int (a_y a))
                  \<le> real_of_int (radius s + a_radius a))
             (asteroids s)"

text \<open>The test of \<^verbatim>\<open>_check_blast_hits\<close>: the blast is a point, the asteroid a disc.\<close>

definition blast_hit :: "blast \<Rightarrow> asteroid \<Rightarrow> bool" where
  "blast_hit b a \<longleftrightarrow>
     distance (real_of_int (b_x b), b_y b) (real_of_int (a_x a), real_of_int (a_y a))
       \<le> real_of_int (a_radius a)"

text \<open>The first loop: for every blast, in order, the first asteroid it is inside (if any).\<close>

fun collect_hits :: "blast list \<Rightarrow> asteroid list \<Rightarrow> asteroid list" where
  "collect_hits [] as = []"
| "collect_hits (b # bs) as =
     (case find (blast_hit b) as of
        None \<Rightarrow> collect_hits bs as
      | Some a \<Rightarrow> a # collect_hits bs as)"

text \<open>
  The second loop. \<^verbatim>\<open>list.remove(h)\<close> deletes the first element equal to \<open>h\<close> and raises
  \<^verbatim>\<open>ValueError\<close> when there is none; nothing is spawned then.
\<close>

fun replace_hits :: "asteroid list \<Rightarrow> env \<Rightarrow> error + env" where
  "replace_hits [] s = Inr s"
| "replace_hits (h # hs) s =
     (if h \<in> set (asteroids s)
      then (let s1 = s\<lparr>asteroids := remove1 h (asteroids s)\<rparr>;
                (n, s2) = new_asteroid s1
            in replace_hits hs (s2\<lparr>asteroids := asteroids s2 @ [n]\<rparr>))
      else Inl ValueError)"

definition check_blast_hits :: "env \<Rightarrow> error + (nat \<times> env)" where
  "check_blast_hits s =
     (let hits = collect_hits (blasts_list s) (asteroids s)
      in case replace_hits hits s of
           Inl e \<Rightarrow> Inl e
         | Inr s1 \<Rightarrow> Inr (length hits, s1))"

subsection \<open>Step\<close>

text \<open>
  The loop over \<^verbatim>\<open>pygame.event.get()\<close>: the events are taken in order, a \<^verbatim>\<open>QUIT\<close> ends the
  loop and the step (\<open>True\<close>), and a \<^verbatim>\<open>KEYDOWN\<close> of the space bar shoots.
\<close>

fun handle_input :: "event list \<Rightarrow> env \<Rightarrow> bool \<times> env" where
  "handle_input [] s = (False, s)"
| "handle_input (e # es) s =
     (if e = QUIT then (True, s)
      else if e = KEYDOWN K_SPACE then handle_input es (shoot s)
      else handle_input es s)"

text \<open>
  \<open>step action keys events s\<close>: \<open>keys\<close> is what \<^verbatim>\<open>pygame.key.get_pressed()\<close> returns and
  \<open>events\<close> what \<^verbatim>\<open>pygame.event.get()\<close> returns. The observation of the quit path is
  \<^verbatim>\<open>None\<close>, and its info the empty dictionary.
\<close>

definition step :: "pyobj \<Rightarrow> (key \<Rightarrow> bool) \<Rightarrow> event list \<Rightarrow> env \<Rightarrow> error + (step_result \<times> env)" where
  "step action keys events s =
     (case handle_input events s of
        (True, s0) \<Rightarrow> Inr ((None, 0, True, empty_dict), s0)
      | (False, s0) \<Rightarrow>
          (let s1 = move_player keys s0;
               s2 = move_asteroids s1;
               s3 = move_blasts s2
           in case check_blast_hits s3 of
                Inl e \<Rightarrow> Inl e
              | Inr (n, s4) \<Rightarrow>
                  (let done = check_collisions s4;
                       reward = (if \<not> done then 0.1 else - 10.0);
                       s5 = s4\<lparr>score := score s4 + reward\<rparr>;
                       obs = get_observation s5;
                       info = empty_dict(''score'' \<mapsto> PyFloat (score s5), ''alive'' \<mapsto> PyBool (\<not> done))
                   in Inr ((Some obs, reward, done, info), s5))))"

text \<open>
  The states an environment can be in: after a reset (the constructor ends with one), and
  after a step that returned.
\<close>

text \<open>No key held down.\<close>

definition no_keys :: "key \<Rightarrow> bool" where
  "no_keys k = False"

inductive reachable :: "env \<Rightarrow> bool" where
  reach_reset: "reachable (snd (reset t1 t2 s))"
| reach_step: "reachable s \<Longrightarrow> step action keys events s = Inr (res, s') \<Longrightarrow> reachable s'"

subsection \<open>Concrete inputs\<close>

text \<open>
  A generator whose first three draws give the asteroid \<open>(400, 0)\<close> of radius 40, and every
  later asteroid is at \<open>(0, -600)\<close> with radius 15.
\<close>

definition demo_seed :: "nat \<Rightarrow> nat" where
  "demo_seed n = (if n = 0 then 400 else if n = 1 then 600 else if n = 2 then 25 else 0)"

definition far_asteroid :: asteroid where
  "far_asteroid = \<lparr>a_x = 0, a_y = - 600, a_radius = 15, a_speed = 2\<rparr>"

text \<open>The environment that the constructor builds from this generator.\<close>

definition demo_env :: env where
  "demo_env =
     \<lparr>self_x = 400, self_y = 450, radius = 15, blasts = 5, last_recharge = 0, score = 0,
      start_time = 0, alive = True,
      asteroids = [\<lparr>a_x = 400, a_y = 0, a_radius = 40, a_speed = 2\<rparr>, far_asteroid,
                   far_asteroid, far_asteroid, far_asteroid, far_asteroid, far_asteroid,
                   far_asteroid],
      blasts_list = [], rng_seed = demo_seed, rng_pos = 24\<rparr>"

text \<open>The same environment one tick later, with no key pressed and no event pending.\<close>

definition moved_far_asteroid :: asteroid where
  "moved_far_asteroid = \<lparr>a_x = 0, a_y = - 598, a_radius = 15, a_speed = 2\<rparr>"

definition demo_env_tick :: env where
  "demo_env_tick =
     \<lparr>self_x = 400, self_y = 447, radius = 15, blasts = 5, last_recharge = 0, score = 1 / 10,
      start_time = 0, alive = True,
      asteroids = [\<lparr>a_x = 400, a_y = 2, a_radius = 40, a_speed = 2\<rparr>, moved_far_asteroid,
                   moved_far_asteroid, moved_far_asteroid, moved_far_asteroid,
                   moved_far_asteroid, moved_far_asteroid, moved_far_asteroid],
      blasts_list = [], rng_seed = demo_seed, rng_pos = 24\<rparr>"

text \<open>An environment with no asteroid, the player at \<open>(400, 300)\<close>.\<close>

definition open_space_env :: env where
  "open_space_env = (new_env demo_seed)\<lparr>self_x := 400, self_y := 300, radius := 15\<rparr>"

text \<open>
  Two environments for \<open>move_asteroids\<close>: the first asteroid is about to cross the bottom
  bound with its lower edge only (\<open>edge_env\<close>), or with its upper edge too (\<open>offscreen_env\<close>).
\<close>

definition edge_env :: env where
  "edge_env =
     demo_env\<lparr>asteroids := [\<lparr>a_x = 100, a_y = 590, a_radius = 20, a_speed = 2\<rparr>, far_asteroid,
                             far_asteroid, far_asteroid, far_asteroid, far_asteroid,
                             far_asteroid, far_asteroid]\<rparr>"

definition offscreen_env :: env where
  "offscreen_env =
     demo_env\<lparr>asteroids := [\<lparr>a_x = 100, a_y = 619, a_radius = 20, a_speed = 2\<rparr>, far_asteroid,
                             far_asteroid, far_asteroid, far_asteroid, far_asteroid,
                             far_asteroid, far_asteroid]\<rparr>"

text \<open>
  The game from \<open>demo_env\<close> when the space bar goes down \<open>n\<close> times in the first tick and
  nothing else happens: the environment after \<open>k\<close> ticks, while the \<open>n\<close> projectiles fly
  towards the first asteroid.
\<close>

definition flight_env :: "nat \<Rightarrow> nat \<Rightarrow> env" where
  "flight_env n k =
     \<lparr>self_x = 400, self_y = max 300 (450 - 3 * real k), radius = 15, blasts = 5 - int n,
      last_recharge = 0, score = real k / 10, start_time = 0, alive = True,
      asteroids = \<lparr>a_x = 400, a_y = 2 * int k, a_radius = 40, a_speed = 2\<rparr>
                  # replicate 7 \<lparr>a_x = 0, a_y = 2 * int k - 600, a_radius = 15, a_speed = 2\<rparr>,
      blasts_list = replicate n \<lparr>b_x = 400, b_y = 450 - 7 * real k\<rparr>,
      rng_seed = demo_seed, rng_pos = 24\<rparr>"

text \<open>After 45 ticks, with two projectiles and with one.\<close>

definition double_hit_env :: env where
  "double_hit_env =
     \<lparr>self_x = 400, self_y = 315, radius = 15, blasts = 3, last_recharge = 0, score = 9 / 2,
      start_time = 0, alive = True,
      asteroids = [\<lparr>a_x = 400, a_y = 90, a_radius = 40, a_speed = 2\<rparr>,
                   \<lparr>a_x = 0, a_y = - 510, a_radius = 15, a_speed = 2\<rparr>,
                   \<lparr>a_x = 0, a_y = - 510, a_radius = 15, a_speed = 2\<rparr>,
                   \<lparr>a_x = 0, a_y = - 510, a_radius = 15, a_speed = 2\<rparr>,
                   \<lparr>a_x = 0, a_y = - 510, a_radius = 15, a_speed = 2\<rparr>,
                   \<lparr>a_x = 0, a_y = - 510, a_radius = 15, a_speed = 2\<rparr>,
                   \<lparr>a_x = 0, a_y = - 510, a_radius = 15, a_speed = 2\<rparr>,
                   \<lparr>a_x = 0, a_y = - 510, a_radius = 15, a_speed = 2\<rparr>],
      blasts_list = [\<lparr>b_x = 400, b_y = 135\<rparr>, \<lparr>b_x = 400, b_y = 135\<rparr>],
      rng_seed = demo_seed, rng_pos = 24\<rparr>"

definition single_hit_env :: env where
  "single_hit_env = double_hit_env\<lparr>blasts := 4, blasts_list := [\<lparr>b_x = 400, b_y = 135\<rparr>]\<rparr>"

text \<open>One tick after \<open>single_hit_env\<close>.\<close>

definition single_hit_after :: env where
  "single_hit_after =
     \<lparr>self_x = 400, self_y = 312, radius = 15, blasts = 4, last_recharge = 0, score = 23 / 5,
      start_time = 0, alive = True,
      asteroids = [\<lparr>a_x = 0, a_y = - 508, a_radius = 15, a_speed = 2\<rparr>,
                   \<lparr>a_x = 0, a_y = - 508, a_radius = 15, a_speed = 2\<rparr>,
                   \<lparr>a_x = 0, a_y = - 508, a_radius = 15, a_speed = 2\<rparr>,
                   \<lparr>a_x = 0, a_y = - 508, a_radius = 15, a_speed = 2\<rparr>,
                   \<lparr>a_x = 0, a_y = - 508, a_radius = 15, a_speed = 2\<rparr>,
                   \<lparr>a_x = 0, a_y = - 508, a_radius = 15, a_speed = 2\<rparr>,
                   \<lparr>a_x = 0, a_y = - 508, a_radius = 15, a_speed = 2\<rparr>,
                   far_asteroid],
      blasts_list = [\<lparr>b_x = 400, b_y = 128\<rparr>],
      rng_seed = demo_seed, rng_pos = 27\<rparr>"

text \<open>
  The game from \<open>demo_env\<close> after 120 idle ticks, one tick with a space-bar key-down and
  one more idle tick: the first asteroid is 56 above the player, the projectile 42 below
  the asteroid's centre. And the environment one idle tick later.
\<close>

definition shield_env :: env where
  "shield_env =
     \<lparr>self_x = 400, self_y = 300, radius = 15, blasts = 4, last_recharge = 0, score = 61 / 5,
      start_time = 0, alive = True,
      asteroids = [\<lparr>a_x = 400, a_y = 244, a_radius = 40, a_speed = 2\<rparr>,
                   \<lparr>a_x = 0, a_y = - 356, a_radius = 15, a_speed = 2\<rparr>,
                   \<lparr>a_x = 0, a_y = - 356, a_radius = 15, a_speed = 2\<rparr>,
                   \<lparr>a_x = 0, a_y = - 356, a_radius = 15, a_speed = 2\<rparr>,
                   \<lparr>a_x = 0, a_y = - 356, a_radius = 15, a_speed = 2\<rparr>,
                   \<lparr>a_x = 0, a_y = - 356, a_radius = 15, a_speed = 2\<rparr>,
                   \<lparr>a_x = 0, a_y = - 356, a_radius = 15, a_speed = 2\<rparr>,
                   \<lparr>a_x = 0, a_y = - 356, a_radius = 15, a_speed = 2\<rparr>],
      blasts_list = [\<lparr>b_x = 400, b_y = 286\<rparr>],
      rng_seed = demo_seed, rng_pos = 24\<rparr>"

definition shield_after :: env where
  "shield_after =
     \<lparr>self_x = 400, self_y = 300, radius = 15, blasts = 4, last_recharge = 0, score = 123 / 10,
      start_time = 0, alive = True,
      asteroids = [\<lparr>a_x = 0, a_y = - 354, a_radius = 15, a_speed = 2\<rparr>,
                   \<lparr>a_x = 0, a_y = - 354, a_radius = 15, a_speed = 2\<rparr>,
                   \<lparr>a_x = 0, a_y = - 354, a_radius = 15, a_speed = 2\<rparr>,
                   \<lparr>a_x = 0, a_y = - 354, a_radius = 15, a_speed = 2\<rparr>,
                   \<lparr>a_x = 0, a_y = - 354, a_radius = 15, a_speed = 2\<rparr>,
                   \<lparr>a_x = 0, a_y = - 354, a_radius = 15, a_speed = 2\<rparr>,
                   \<lparr>a_x = 0, a_y = - 354, a_radius = 15, a_speed = 2\<rparr>,
                   far_asteroid],
      blasts_list = [\<lparr>b_x = 400, b_y = 279\<rparr>],
      rng_seed = demo_seed, rng_pos = 27\<rparr>"

lemmas game_constants =
  WIDTH_def HEIGHT_def PLAYER_SPEED_def SIDE_SPEED_def ASTEROID_COUNT_def ASTEROID_SPEED_def
  LIDAR_RAYS_def LIDAR_RANGE_def MAX_BLASTS_def

section \<open>Frame and shape lemmas\<close>

lemma randint_state: "snd (randint a b s) = s\<lparr>rng_pos := Suc (rng_pos s)\<rparr>"
  by (simp add: randint_def)

lemma randint_range:
  assumes "a \<le> b"
  shows "a \<le> fst (randint a b s) \<and> fst (randint a b s) \<le> b"
proof -
  have "0 < nat (b - a + 1)" using assms by simp
  then have "rng_seed s (rng_pos s) mod nat (b - a + 1) < nat (b - a + 1)"
    by (rule mod_less_divisor)
  then have "int (rng_seed s (rng_pos s) mod nat (b - a + 1)) < b - a + 1"
    using assms by linarith
  then show ?thesis by (simp add: randint_def)
qed

lemma new_asteroid_state: "snd (new_asteroid s) = s\<lparr>rng_pos := rng_pos s + 3\<rparr>"
  by (simp add: new_asteroid_def randint_def Let_def split: prod.splits)

lemma spawn_asteroids_length: "length (fst (spawn_asteroids n s)) = n"
  by (induction n arbitrary: s) (simp_all add: split_beta Let_def)

lemma spawn_asteroids_state: "snd (spawn_asteroids n s) = s\<lparr>rng_pos := rng_pos s + 3 * n\<rparr>"
  by (induction n arbitrary: s) (simp_all add: split_beta Let_def new_asteroid_state)

lemma respawn_offscreen_length: "length (fst (respawn_offscreen as s)) = length as"
  by (induction as arbitrary: s) (simp_all add: split_beta Let_def)

lemma respawn_offscreen_state: "\<exists>k. snd (respawn_offscreen as s) = s\<lparr>rng_pos := rng_pos s + k\<rparr>"
proof (induction as arbitrary: s)
  case Nil
  show ?case by (rule exI [of _ 0]) simp
next
  case (Cons a as)
  show ?case
  proof (cases "a_y a - a_radius a \<le> HEIGHT")
    case True
    then show ?thesis using Cons [of s] by (simp add: split_beta)
  next
    case False
    obtain k where "snd (respawn_offscreen as (snd (new_asteroid s))) = (snd (new_asteroid s))\<lparr>rng_pos := rng_pos (snd (new_asteroid s)) + k\<rparr>"
      using Cons [of "snd (new_asteroid s)"] by blast
    then show ?thesis using False
      by (intro exI [of _ "3 + k"]) (simp add: split_beta Let_def new_asteroid_state)
  qed
qed

lemma reset_fields:
  "self_x (snd (reset t1 t2 s)) = WIDTH div 2"
  "self_y (snd (reset t1 t2 s)) = real_of_int HEIGHT * 0.75"
  "radius (snd (reset t1 t2 s)) = 15"
  "blasts (snd (reset t1 t2 s)) = MAX_BLASTS"
  "score (snd (reset t1 t2 s)) = 0"
  "alive (snd (reset t1 t2 s))"
  "blasts_list (snd (reset t1 t2 s)) = []"
  "length (asteroids (snd (reset t1 t2 s))) = ASTEROID_COUNT"
  "fst (reset t1 t2 s) = get_observation (snd (reset t1 t2 s))"
  using spawn_asteroids_length [of ASTEROID_COUNT]
  by (simp_all add: reset_def Let_def split_beta spawn_asteroids_state)

lemma shoot_frame:
  "self_x (shoot s) = self_x s" "self_y (shoot s) = self_y s" "asteroids (shoot s) = asteroids s"
  "score (shoot s) = score s" "radius (shoot s) = radius s" "alive (shoot s) = alive s"
  "rng_seed (shoot s) = rng_seed s" "rng_pos (shoot s) = rng_pos s"
  "last_recharge (shoot s) = last_recharge s" "start_time (shoot s) = start_time s"
  by (simp_all add: shoot_def)

lemma shoot_blasts_bounds: "0 \<le> blasts s \<and> blasts s \<le> m \<Longrightarrow> 0 \<le> blasts (shoot s) \<and> blasts (shoot s) \<le> m"
  by (simp add: shoot_def)

lemma handle_input_frame:
  "self_x (snd (handle_input events s)) = self_x s \<and>
   self_y (snd (handle_input events s)) = self_y s \<and>
   asteroids (snd (handle_input events s)) = asteroids s \<and>
   score (snd (handle_input events s)) = score s \<and>
   radius (snd (handle_input events s)) = radius s \<and>
   alive (snd (handle_input events s)) = alive s \<and>
   rng_seed (snd (handle_input events s)) = rng_seed s \<and>
   rng_pos (snd (handle_input events s)) = rng_pos s"
  by (induction events arbitrary: s) (simp_all add: shoot_frame)

lemma handle_input_blasts_bounds:
  "0 \<le> blasts s \<and> blasts s \<le> m \<Longrightarrow>
   0 \<le> blasts (snd (handle_input events s)) \<and> blasts (snd (handle_input events s)) \<le> m"
proof (induction events arbitrary: s)
  case Nil
  then show ?case by simp
next
  case (Cons e es)
  from Cons.prems have "0 \<le> blasts (shoot s) \<and> blasts (shoot s) \<le> m"
    by (rule shoot_blasts_bounds)
  then have "0 \<le> blasts (snd (handle_input es (shoot s))) \<and> blasts (snd (handle_input es (shoot s))) \<le> m"
    by (rule Cons.IH)
  with Cons.IH [OF Cons.prems] Cons.prems show ?case by simp
qed

lemma handle_input_quit: "fst (handle_input events s) \<longleftrightarrow> QUIT \<in> set events"
  by (induction events arbitrary: s) auto

lemma move_player_frame:
  "blasts (move_player keys s) = blasts s" "asteroids (move_player keys s) = asteroids s"
  "blasts_list (move_player keys s) = blasts_list s" "score (move_player keys s) = score s"
  "radius (move_player keys s) = radius s"
  by (simp_all add: move_player_def Let_def)

lemma clip_bounds: "lo \<le> hi \<Longrightarrow> lo \<le> clip v lo hi \<and> clip v lo hi \<le> hi"
  by (simp add: clip_def)

lemma move_player_x:
  "self_x (move_player keys s) =
     clip (self_x s - (if keys K_LEFT then SIDE_SPEED else 0) + (if keys K_RIGHT then SIDE_SPEED else 0))
          (WIDTH div 2 - 150) (WIDTH div 2 + 150)"
  by (simp add: move_player_def Let_def)

lemma move_player_y:
  "self_y (move_player keys s) =
     clip (self_y s - real_of_int PLAYER_SPEED) (real_of_int HEIGHT * 0.5) (real_of_int HEIGHT * 0.75)"
  by (simp add: move_player_def Let_def)

lemma move_player_bounds:
  "WIDTH div 2 - 150 \<le> self_x (move_player keys s) \<and> self_x (move_player keys s) \<le> WIDTH div 2 + 150 \<and>
   real_of_int HEIGHT * 0.5 \<le> self_y (move_player keys s) \<and> self_y (move_player keys s) \<le> real_of_int HEIGHT * 0.75"
proof -
  have "WIDTH div 2 - 150 \<le> WIDTH div 2 + 150" by simp
  then have x: "WIDTH div 2 - 150 \<le> clip vx (WIDTH div 2 - 150) (WIDTH div 2 + 150)
      \<and> clip vx (WIDTH div 2 - 150) (WIDTH div 2 + 150) \<le> WIDTH div 2 + 150" for vx
    by (rule clip_bounds)
  have "real_of_int HEIGHT * 0.5 \<le> real_of_int HEIGHT * 0.75" by (simp add: HEIGHT_def)
  then have y: "real_of_int HEIGHT * 0.5 \<le> clip vy (real_of_int HEIGHT * 0.5) (real_of_int HEIGHT * 0.75)
      \<and> clip vy (real_of_int HEIGHT * 0.5) (real_of_int HEIGHT * 0.75) \<le> real_of_int HEIGHT * 0.75" for vy
    by (rule clip_bounds)
  show ?thesis
    unfolding move_player_x move_player_y by (simp only: x y)
qed

lemma move_asteroids_frame:
  "self_x (move_asteroids s) = self_x s" "self_y (move_asteroids s) = self_y s"
  "blasts (move_asteroids s) = blasts s" "blasts_list (move_asteroids s) = blasts_list s"
  "score (move_asteroids s) = score s" "radius (move_asteroids s) = radius s"
  "rng_seed (move_asteroids s) = rng_seed s"
  using respawn_offscreen_state [of "map (\<lambda>a. a\<lparr>a_y := a_y a + a_speed a\<rparr>) (asteroids s)" "s\<lparr>asteroids := map (\<lambda>a. a\<lparr>a_y := a_y a + a_speed a\<rparr>) (asteroids s)\<rparr>"]
  by (auto simp add: move_asteroids_def Let_def split_beta)

lemma move_asteroids_length: "length (asteroids (move_asteroids s)) = length (asteroids s)"
  by (simp add: move_asteroids_def Let_def split_beta respawn_offscreen_length)

lemma move_blasts_frame:
  "self_x (move_blasts s) = self_x s" "self_y (move_blasts s) = self_y s"
  "blasts (move_blasts s) = blasts s" "asteroids (move_blasts s) = asteroids s"
  "score (move_blasts s) = score s" "radius (move_blasts s) = radius s"
  "rng_seed (move_blasts s) = rng_seed s" "rng_pos (move_blasts s) = rng_pos s"
  by (simp_all add: move_blasts_def)

lemma replace_hits_frame:
  "replace_hits hs s = Inr s' \<Longrightarrow>
   self_x s' = self_x s \<and> self_y s' = self_y s \<and> blasts s' = blasts s \<and>
   blasts_list s' = blasts_list s \<and> score s' = score s \<and> radius s' = radius s \<and>
   rng_seed s' = rng_seed s \<and>
   length (asteroids s') = length (asteroids s)"
proof (induction hs arbitrary: s)
  case Nil
  then show ?case by simp
next
  case (Cons h hs)
  show ?case
  proof (cases "h \<in> set (asteroids s)")
    case False
    with Cons.prems show ?thesis by simp
  next
    case True
    define t where "t = (snd (new_asteroid (s\<lparr>asteroids := remove1 h (asteroids s)\<rparr>)))\<lparr>asteroids := remove1 h (asteroids s) @ [fst (new_asteroid (s\<lparr>asteroids := remove1 h (asteroids s)\<rparr>))]\<rparr>"
    have run: "replace_hits hs t = Inr s'"
      using Cons.prems True by (simp add: t_def Let_def split_beta new_asteroid_state)
    have "0 < length (asteroids s)" using True by (cases "asteroids s") auto
    then have len: "length (asteroids t) = length (asteroids s)"
      using True by (simp add: t_def length_remove1)
    have "self_x t = self_x s \<and> self_y t = self_y s \<and> blasts t = blasts s \<and>
      blasts_list t = blasts_list s \<and> score t = score s \<and> radius t = radius s \<and> rng_seed t = rng_seed s"
      by (simp add: t_def new_asteroid_state)
    with Cons.IH [OF run] len show ?thesis by simp
  qed
qed

lemma check_blast_hits_frame:
  "check_blast_hits s = Inr (n, s') \<Longrightarrow>
   self_x s' = self_x s \<and> self_y s' = self_y s \<and> blasts s' = blasts s \<and>
   blasts_list s' = blasts_list s \<and> score s' = score s \<and> radius s' = radius s \<and>
   rng_seed s' = rng_seed s \<and>
   length (asteroids s') = length (asteroids s)"
  by (auto simp add: check_blast_hits_def Let_def split: sum.splits dest: replace_hits_frame)

text \<open>The two shapes of a step that returns.\<close>

lemma step_quit:
  "QUIT \<in> set events \<Longrightarrow>
   step action keys events s = Inr ((None, 0, True, empty_dict), snd (handle_input events s))"
  using handle_input_quit [of events s]
  by (cases "handle_input events s") (simp add: step_def)

lemma step_tick:
  assumes "QUIT \<notin> set events" and "step action keys events s = Inr ((obs, reward, done, info), s')"
  shows "\<exists>n s4. check_blast_hits (move_blasts (move_asteroids (move_player keys (snd (handle_input events s))))) = Inr (n, s4)
      \<and> done = check_collisions s4
      \<and> reward = (if done then - 10 else 1 / 10)
      \<and> s' = s4\<lparr>score := score s4 + reward\<rparr>
      \<and> obs = Some (get_observation s')
      \<and> info = empty_dict(''score'' \<mapsto> PyFloat (score s'), ''alive'' \<mapsto> PyBool (\<not> done))"
proof -
  have nq: "\<not> fst (handle_input events s)" using assms(1) by (simp add: handle_input_quit)
  then obtain s0 where h: "handle_input events s = (False, s0)"
    by (cases "handle_input events s") auto
  show ?thesis using assms(2)
    by (auto simp add: step_def h Let_def split: sum.splits)
qed

section \<open>Evaluating the concrete inputs\<close>

lemma spawn_asteroids_numeral:
  "spawn_asteroids (numeral k) s =
     (let (a, s1) = new_asteroid s; (rest, s2) = spawn_asteroids (pred_numeral k) s1
      in (a # rest, s2))"
  by (simp add: numeral_eq_Suc)

lemma new_asteroid_demo_first:
  "rng_seed s = demo_seed \<Longrightarrow> rng_pos s = 0 \<Longrightarrow>
   new_asteroid s = (\<lparr>a_x = 400, a_y = 0, a_radius = 40, a_speed = 2\<rparr>, s\<lparr>rng_pos := 3\<rparr>)"
  by (simp add: new_asteroid_def randint_def demo_seed_def game_constants)

lemma new_asteroid_demo:
  "rng_seed s = demo_seed \<Longrightarrow> 3 \<le> rng_pos s \<Longrightarrow>
   new_asteroid s = (far_asteroid, s\<lparr>rng_pos := rng_pos s + 3\<rparr>)"
  by (simp add: new_asteroid_def randint_def demo_seed_def far_asteroid_def game_constants)

lemma init_demo: "init demo_seed 0 0 = demo_env"
  by (simp add: init_def reset_def new_env_def demo_env_def Let_def
      spawn_asteroids_numeral new_asteroid_demo_first new_asteroid_demo ASTEROID_COUNT_def
      WIDTH_def HEIGHT_def MAX_BLASTS_def)

lemma reachable_demo: "reachable demo_env"
  unfolding init_demo [symmetric] init_def by (rule reach_reset)


section \<open>The action argument\<close>

text \<open>
  Claim C10. The result of \<open>step\<close> does not depend on its action argument: for every
  environment, keyboard state and event queue, any two actions (\<^verbatim>\<open>None\<close> and values outside
  the discrete set included) give the same returned tuple, the same next state, and the same
  error when the step raises. Only the events of the queue shoot.
\<close>

theorem step_ignores_action: "step a1 keys events s = step a2 keys events s"
  by (simp add: step_def)

section \<open>Position bounds\<close>

lemma step_preserves_bounds:
  assumes inv: "WIDTH div 2 - 150 \<le> self_x s \<and> self_x s \<le> WIDTH div 2 + 150 \<and>
      real_of_int HEIGHT * 0.5 \<le> self_y s \<and> self_y s \<le> real_of_int HEIGHT * 0.75"
    and st: "step action keys events s = Inr (res, s')"
  shows "WIDTH div 2 - 150 \<le> self_x s' \<and> self_x s' \<le> WIDTH div 2 + 150 \<and>
      real_of_int HEIGHT * 0.5 \<le> self_y s' \<and> self_y s' \<le> real_of_int HEIGHT * 0.75"
proof (cases "QUIT \<in> set events")
  case True
  from step_quit [OF True, of action keys s] st
  have "s' = snd (handle_input events s)" by simp
  then show ?thesis using inv handle_input_frame [of events s] by simp
next
  case False
  obtain obs reward dn info where res: "res = (obs, reward, dn, info)"
    by (cases res) auto
  from step_tick [OF False st [unfolded res]]
  obtain n s4 where
    c: "check_blast_hits (move_blasts (move_asteroids (move_player keys (snd (handle_input events s))))) = Inr (n, s4)"
    and s': "s' = s4\<lparr>score := score s4 + reward\<rparr>"
    by blast
  have "self_x s' = self_x (move_player keys (snd (handle_input events s)))"
    "self_y s' = self_y (move_player keys (snd (handle_input events s)))"
    using check_blast_hits_frame [OF c] by (simp_all add: s' move_blasts_frame move_asteroids_frame)
  then show ?thesis using move_player_bounds [of keys "snd (handle_input events s)"] by simp
qed

text \<open>
  Claim C7. In every reachable environment (after a reset, and after every step that
  returns) the player's x is within \<open>[WIDTH div 2 - 150, WIDTH div 2 + 150] = [250, 550]\<close> and
  its y within \<open>[0.5 * HEIGHT, 0.75 * HEIGHT] = [300, 450]\<close>; and \<open>move_player\<close> first moves
  forward and clamps y, then moves sideways and clamps x.
\<close>

theorem player_position_bounds:
  assumes "reachable s"
  shows "WIDTH div 2 - 150 = 250 \<and> WIDTH div 2 + 150 = 550 \<and>
         real_of_int HEIGHT * 0.5 = 300 \<and> real_of_int HEIGHT * 0.75 = 450 \<and>
         250 \<le> self_x s \<and> self_x s \<le> 550 \<and> 300 \<le> self_y s \<and> self_y s \<le> 450 \<and>
         move_player keys t =
           (let t1 = t\<lparr>self_y := clip (self_y t - real_of_int PLAYER_SPEED)
                                        (real_of_int HEIGHT * 0.5) (real_of_int HEIGHT * 0.75)\<rparr>
            in t1\<lparr>self_x := clip (self_x t1 - (if keys K_LEFT then SIDE_SPEED else 0)
                                              + (if keys K_RIGHT then SIDE_SPEED else 0))
                                   (WIDTH div 2 - 150) (WIDTH div 2 + 150)\<rparr>)"
proof -
  have "WIDTH div 2 - 150 \<le> self_x s \<and> self_x s \<le> WIDTH div 2 + 150 \<and>
      real_of_int HEIGHT * 0.5 \<le> self_y s \<and> self_y s \<le> real_of_int HEIGHT * 0.75"
    using assms
  proof (induction rule: reachable.induct)
    case (reach_reset t1 t2 s)
    show ?case by (simp add: reset_fields HEIGHT_def)
  next
    case (reach_step s action keys events res s')
    show ?case by (rule step_preserves_bounds [OF reach_step.IH reach_step.hyps(2)])
  qed
  moreover have "WIDTH div 2 - 150 = 250 \<and> WIDTH div 2 + 150 = 550 \<and>
         real_of_int HEIGHT * 0.5 = 300 \<and> real_of_int HEIGHT * 0.75 = 450"
    by (simp add: WIDTH_def HEIGHT_def)
  moreover have "move_player keys t =
           (let t1 = t\<lparr>self_y := clip (self_y t - real_of_int PLAYER_SPEED)
                                        (real_of_int HEIGHT * 0.5) (real_of_int HEIGHT * 0.75)\<rparr>
            in t1\<lparr>self_x := clip (self_x t1 - (if keys K_LEFT then SIDE_SPEED else 0)
                                              + (if keys K_RIGHT then SIDE_SPEED else 0))
                                   (WIDTH div 2 - 150) (WIDTH div 2 + 150)\<rparr>)"
    by (simp add: move_player_def Let_def)
  ultimately show ?thesis by simp
qed

theorem player_position_bounds_witness:
  "reachable demo_env \<and> 250 \<le> self_x demo_env \<and> self_x demo_env \<le> 550 \<and>
   300 \<le> self_y demo_env \<and> self_y demo_env \<le> 450"
  using player_position_bounds [OF reachable_demo] reachable_demo by simp

section \<open>Projectile charge\<close>

lemma step_blasts:
  assumes st: "step action keys events s = Inr (res, s')"
  shows "blasts s' = blasts (snd (handle_input events s))"
proof (cases "QUIT \<in> set events")
  case True
  from step_quit [OF True, of action keys s] st show ?thesis by simp
next
  case False
  obtain obs reward dn info where res: "res = (obs, reward, dn, info)"
    by (cases res) auto
  from step_tick [OF False st [unfolded res]]
  obtain n s4 where
    c: "check_blast_hits (move_blasts (move_asteroids (move_player keys (snd (handle_input events s))))) = Inr (n, s4)"
    and s': "s' = s4\<lparr>score := score s4 + reward\<rparr>"
    by blast
  show ?thesis
    using check_blast_hits_frame [OF c]
    by (simp add: s' move_blasts_frame move_asteroids_frame move_player_frame)
qed

lemma reachable_blasts: "reachable s \<Longrightarrow> 0 \<le> blasts s \<and> blasts s \<le> MAX_BLASTS"
proof (induction rule: reachable.induct)
  case (reach_reset t1 t2 s)
  show ?case by (simp add: reset_fields MAX_BLASTS_def)
next
  case (reach_step s action keys events res s')
  show ?case
    unfolding step_blasts [OF reach_step.hyps(2)]
    using reach_step.IH by (rule handle_input_blasts_bounds)
qed

text \<open>
  Claim C8. The projectile charge of every reachable environment is within
  \<open>[0, MAX_BLASTS]\<close>; reset sets it to \<open>MAX_BLASTS\<close>; a shoot with charge above 0 takes one
  from the charge and appends exactly one projectile at the player's position; a shoot with
  charge 0 changes nothing (\<open>shoot\<close> has no error result), so a step whose queue starts with
  such a request behaves, reward included, as the step without it.
\<close>

theorem charge_bounds:
  assumes "reachable s"
  shows "0 \<le> blasts s \<and> blasts s \<le> MAX_BLASTS
      \<and> blasts (snd (reset ta tb r)) = MAX_BLASTS
      \<and> (0 < blasts u \<longrightarrow>
           shoot u = u\<lparr>blasts := blasts u - 1,
                        blasts_list := blasts_list u @ [\<lparr>b_x = self_x u, b_y = self_y u\<rparr>]\<rparr>)
      \<and> (blasts v = 0 \<longrightarrow>
           shoot v = v \<and> step action keys (KEYDOWN K_SPACE # events) v = step action keys events v)"
proof -
  have "blasts v = 0 \<Longrightarrow> shoot v = v" by (simp add: shoot_def)
  moreover have "shoot v = v \<Longrightarrow> step action keys (KEYDOWN K_SPACE # events) v = step action keys events v"
    by (simp add: step_def)
  moreover have "0 < blasts u \<Longrightarrow>
           shoot u = u\<lparr>blasts := blasts u - 1,
                        blasts_list := blasts_list u @ [\<lparr>b_x = self_x u, b_y = self_y u\<rparr>]\<rparr>"
    by (simp add: shoot_def)
  moreover note reachable_blasts [OF assms] reset_fields(4) [of ta tb r]
  ultimately show ?thesis by blast
qed

theorem charge_bounds_witness:
  "reachable demo_env \<and> 0 \<le> blasts demo_env \<and> blasts demo_env \<le> MAX_BLASTS
   \<and> 0 < blasts demo_env
   \<and> shoot demo_env = demo_env\<lparr>blasts := 4, blasts_list := [\<lparr>b_x = 400, b_y = 450\<rparr>]\<rparr>
   \<and> blasts (shoot (shoot (shoot (shoot (shoot demo_env))))) = 0
   \<and> shoot (shoot (shoot (shoot (shoot (shoot demo_env))))) = shoot (shoot (shoot (shoot (shoot demo_env))))"
proof -
  let ?v = "shoot (shoot (shoot (shoot (shoot demo_env))))"
  have pos: "0 < blasts demo_env" by (simp add: demo_env_def)
  have zero: "blasts ?v = 0"
    by (simp add: demo_env_def shoot_def)
  have fields: "blasts demo_env = 5" "blasts_list demo_env = []" "self_x demo_env = 400" "self_y demo_env = 450"
    by (simp_all add: demo_env_def)
  note inst = charge_bounds [OF reachable_demo, where u = demo_env and v = ?v and ta = 0 and tb = 0
      and r = demo_env and action = PyNone and keys = no_keys and events = "[]"]
  from inst have a: "0 \<le> blasts demo_env \<and> blasts demo_env \<le> MAX_BLASTS" by blast
  from inst pos have "shoot demo_env = demo_env\<lparr>blasts := blasts demo_env - 1,
      blasts_list := blasts_list demo_env @ [\<lparr>b_x = self_x demo_env, b_y = self_y demo_env\<rparr>]\<rparr>"
    by blast
  then have b: "shoot demo_env = demo_env\<lparr>blasts := 4, blasts_list := [\<lparr>b_x = 400, b_y = 450\<rparr>]\<rparr>"
    by (simp add: fields)
  from inst zero have c: "shoot ?v = ?v" by blast
  from reachable_demo a pos b zero c show ?thesis by blast
qed

section \<open>The lidar\<close>

lemma distance_le_iff:
  "0 \<le> r \<Longrightarrow> distance a b \<le> r \<longleftrightarrow> (fst a - fst b)\<^sup>2 + (snd a - snd b)\<^sup>2 \<le> r\<^sup>2"
proof -
  assume r: "0 \<le> r"
  have "sqrt ((fst a - fst b)\<^sup>2 + (snd a - snd b)\<^sup>2) \<le> r
      \<longleftrightarrow> sqrt ((fst a - fst b)\<^sup>2 + (snd a - snd b)\<^sup>2) \<le> sqrt (r\<^sup>2)"
    using r by simp
  also have "\<dots> \<longleftrightarrow> (fst a - fst b)\<^sup>2 + (snd a - snd b)\<^sup>2 \<le> r\<^sup>2"
    by (rule real_sqrt_le_iff)
  finally show ?thesis by (simp add: distance_def)
qed

lemma py_range_lidar: "r \<in> set (py_range 0 LIDAR_RANGE 5) \<Longrightarrow> r \<le> 195"
  by (auto simp add: py_range_def LIDAR_RANGE_def)

lemma march_result: "march s dx dy rs \<in> set rs \<union> {LIDAR_RANGE}"
  by (induction rs) (auto simp add: Let_def)

lemma march_le_range: "march s dx dy (py_range 0 LIDAR_RANGE 5) \<le> LIDAR_RANGE"
proof -
  have "march s dx dy (py_range 0 LIDAR_RANGE 5) \<in> set (py_range 0 LIDAR_RANGE 5) \<union> {LIDAR_RANGE}"
    by (rule march_result)
  then show ?thesis
    using py_range_lidar [of "march s dx dy (py_range 0 LIDAR_RANGE 5)"]
    by (auto simp add: LIDAR_RANGE_def)
qed

lemma get_lidar_length: "length (get_lidar s) = LIDAR_RAYS"
  by (simp add: get_lidar_def linspace_def)

lemma get_lidar_unit: "v \<in> set (get_lidar s) \<Longrightarrow> 0 \<le> v \<and> v \<le> 1"
proof -
  assume "v \<in> set (get_lidar s)"
  then obtain angle where
    v: "v = real (march s (cos (radians angle)) (sin (radians angle)) (py_range 0 LIDAR_RANGE 5)) / real LIDAR_RANGE"
    by (auto simp add: get_lidar_def Let_def)
  have "real (march s (cos (radians angle)) (sin (radians angle)) (py_range 0 LIDAR_RANGE 5)) \<le> real LIDAR_RANGE"
    using march_le_range by simp
  moreover have "0 < real LIDAR_RANGE" by (simp add: LIDAR_RANGE_def)
  ultimately show ?thesis by (simp add: v)
qed

lemma march_clear:
  assumes "asteroids s = []"
    and "\<And>r. r \<in> set rs \<Longrightarrow>
          0 \<le> real_of_int (self_x s) + dx * real r \<and> real_of_int (self_x s) + dx * real r < real_of_int WIDTH \<and>
          0 \<le> self_y s + dy * real r \<and> self_y s + dy * real r < real_of_int HEIGHT"
  shows "march s dx dy rs = LIDAR_RANGE"
  using assms(2)
proof (induction rs)
  case Nil
  show ?case by simp
next
  case (Cons r rs)
  have "0 \<le> real_of_int (self_x s) + dx * real r \<and> real_of_int (self_x s) + dx * real r < real_of_int WIDTH \<and>
          0 \<le> self_y s + dy * real r \<and> self_y s + dy * real r < real_of_int HEIGHT"
    by (rule Cons.prems) simp
  moreover have "march s dx dy rs = LIDAR_RANGE"
    by (rule Cons.IH) (simp add: Cons.prems)
  ultimately show ?case using assms(1) by (simp add: Let_def)
qed

lemma scaled_unit_bound:
  fixes d :: real
  assumes "\<bar>d\<bar> \<le> 1" and "r \<le> 195"
  shows "- 195 \<le> d * real r \<and> d * real r \<le> 195"
proof -
  have "\<bar>d * real r\<bar> = \<bar>d\<bar> * real r" by (simp add: abs_mult)
  also have "\<dots> \<le> 1 * real r" using assms(1) by (intro mult_right_mono) simp_all
  also have "\<dots> \<le> 195" using assms(2) by simp
  finally show ?thesis by linarith
qed

text \<open>
  Claim C9. In a world with no obstacles where the player is farther than \<open>LIDAR_RANGE\<close> from
  each of the four bounds, every ray (whatever its angle) records \<open>LIDAR_RANGE\<close>, and so
  every value of the observation is 1.
\<close>

theorem lidar_open_space:
  assumes "asteroids s = []"
    and "real LIDAR_RANGE < real_of_int (self_x s)"
    and "real LIDAR_RANGE < real_of_int WIDTH - real_of_int (self_x s)"
    and "real LIDAR_RANGE < self_y s"
    and "real LIDAR_RANGE < real_of_int HEIGHT - self_y s"
  shows "march s (cos (radians angle)) (sin (radians angle)) (py_range 0 LIDAR_RANGE 5) = LIDAR_RANGE
       \<and> get_lidar s = replicate LIDAR_RAYS 1
       \<and> get_observation s = replicate LIDAR_RAYS 1"
proof -
  have ray: "march s (cos (radians a)) (sin (radians a)) (py_range 0 LIDAR_RANGE 5) = LIDAR_RANGE" for a
  proof (rule march_clear [OF assms(1)])
    fix r assume "r \<in> set (py_range 0 LIDAR_RANGE 5)"
    then have r: "r \<le> 195" by (rule py_range_lidar)
    have "- 195 \<le> cos (radians a) * real r \<and> cos (radians a) * real r \<le> 195"
      using r by (intro scaled_unit_bound) simp_all
    moreover have "- 195 \<le> sin (radians a) * real r \<and> sin (radians a) * real r \<le> 195"
      using r by (intro scaled_unit_bound) simp_all
    ultimately show "0 \<le> real_of_int (self_x s) + cos (radians a) * real r \<and>
        real_of_int (self_x s) + cos (radians a) * real r < real_of_int WIDTH \<and>
        0 \<le> self_y s + sin (radians a) * real r \<and>
        self_y s + sin (radians a) * real r < real_of_int HEIGHT"
      using assms(2-5) by (simp add: LIDAR_RANGE_def)
  qed
  have unit: "real LIDAR_RANGE / real LIDAR_RANGE = 1" by (simp add: LIDAR_RANGE_def)
  have "get_lidar s = map (\<lambda>angle. 1) (linspace 0 360 LIDAR_RAYS)"
    by (simp only: get_lidar_def Let_def ray unit)
  also have "\<dots> = replicate LIDAR_RAYS 1"
    by (simp add: map_replicate_const linspace_def)
  finally have "get_lidar s = replicate LIDAR_RAYS 1" .
  with ray show ?thesis by (simp add: get_observation_def)
qed

theorem lidar_open_space_witness:
  "asteroids open_space_env = []
   \<and> real LIDAR_RANGE < real_of_int (self_x open_space_env)
   \<and> real LIDAR_RANGE < real_of_int WIDTH - real_of_int (self_x open_space_env)
   \<and> real LIDAR_RANGE < self_y open_space_env
   \<and> real LIDAR_RANGE < real_of_int HEIGHT - self_y open_space_env
   \<and> march open_space_env (cos (radians 15)) (sin (radians 15)) (py_range 0 LIDAR_RANGE 5) = LIDAR_RANGE
   \<and> get_lidar open_space_env = replicate LIDAR_RAYS 1"
proof -
  have h: "asteroids open_space_env = []"
    "real LIDAR_RANGE < real_of_int (self_x open_space_env)"
    "real LIDAR_RANGE < real_of_int WIDTH - real_of_int (self_x open_space_env)"
    "real LIDAR_RANGE < self_y open_space_env"
    "real LIDAR_RANGE < real_of_int HEIGHT - self_y open_space_env"
    by (simp_all add: open_space_env_def new_env_def game_constants)
  from lidar_open_space [OF h, of 15] h show ?thesis by blast
qed

section \<open>One tick of the concrete environment\<close>

lemma step_demo:
  "step PyNone no_keys [] demo_env =
     Inr ((Some (get_observation demo_env_tick), 1 / 10, False,
           empty_dict(''score'' \<mapsto> PyFloat (1 / 10), ''alive'' \<mapsto> PyBool True)),
          demo_env_tick)"
proof -
  have mp: "move_player no_keys demo_env = demo_env\<lparr>self_y := 447\<rparr>"
    by (simp add: move_player_def no_keys_def demo_env_def Let_def clip_def game_constants)
  have ma: "move_asteroids (demo_env\<lparr>self_y := 447\<rparr>) = demo_env_tick\<lparr>score := 0\<rparr>"
    by (simp add: move_asteroids_def demo_env_def demo_env_tick_def far_asteroid_def
        moved_far_asteroid_def Let_def HEIGHT_def)
  have mb: "move_blasts (demo_env_tick\<lparr>score := 0\<rparr>) = demo_env_tick\<lparr>score := 0\<rparr>"
    by (simp add: move_blasts_def demo_env_tick_def)
  have cb: "check_blast_hits (demo_env_tick\<lparr>score := 0\<rparr>) = Inr (0, demo_env_tick\<lparr>score := 0\<rparr>)"
    by (simp add: check_blast_hits_def demo_env_tick_def)
  have cc: "\<not> check_collisions (demo_env_tick\<lparr>score := 0\<rparr>)"
    by (simp add: check_collisions_def demo_env_tick_def moved_far_asteroid_def distance_le_iff)
  have sc: "demo_env_tick\<lparr>score := 1 / 10\<rparr> = demo_env_tick"
    by (simp add: demo_env_tick_def)
  have sv: "score demo_env_tick = 1 / 10" by (simp add: demo_env_tick_def)
  show ?thesis
    by (simp add: step_def mp ma mb cb cc Let_def sc sv)
qed

section \<open>Reward\<close>

lemma step_score:
  assumes nq: "QUIT \<notin> set events"
    and st: "step action keys events s = Inr ((obs, reward, dn, info), s')"
  shows "score s' = score s + reward"
proof -
  from step_tick [OF nq st]
  obtain n s4 where
    c: "check_blast_hits (move_blasts (move_asteroids (move_player keys (snd (handle_input events s))))) = Inr (n, s4)"
    and s': "s' = s4\<lparr>score := score s4 + reward\<rparr>"
    by blast
  have "score s4 = score s"
    using check_blast_hits_frame [OF c] handle_input_frame [of events s]
    by (simp add: move_blasts_frame move_asteroids_frame move_player_frame)
  then show ?thesis by (simp add: s')
qed

text \<open>
  Claim C6, as the code has it. For a step that completes a non-quit tick, the collision is
  tested on the world that the tick leaves, after the movement updates and after hit
  resolution: \<open>done\<close> is true exactly when some obstacle of that world is within the sum
  of the two radii of the player's position there (an obstacle struck by a projectile in
  this tick has been replaced by then). The reward is \<open>-10\<close> in that case and \<open>0.1\<close>
  otherwise; and the score stored and returned in info is the previous score plus this
  reward, on the terminal tick too.
\<close>

theorem reward_law:
  assumes "QUIT \<notin> set events"
    and "step action keys events s = Inr ((obs, reward, dn, info), s')"
  shows "dn = (\<exists>a \<in> set (asteroids s').
                 distance (real_of_int (self_x s'), self_y s')
                          (real_of_int (a_x a), real_of_int (a_y a))
                   \<le> real_of_int (radius s' + a_radius a))
       \<and> reward = (if dn then - 10 else 1 / 10)
       \<and> score s' = score s + reward
       \<and> info ''score'' = Some (PyFloat (score s + reward))
       \<and> info ''alive'' = Some (PyBool (\<not> dn))"
proof -
  from step_tick [OF assms]
  obtain n s4 where
    dn: "dn = check_collisions s4"
    and rw: "reward = (if dn then - 10 else 1 / 10)"
    and s': "s' = s4\<lparr>score := score s4 + reward\<rparr>"
    and info: "info = empty_dict(''score'' \<mapsto> PyFloat (score s'), ''alive'' \<mapsto> PyBool (\<not> dn))"
    by blast
  have sc: "score s' = score s + reward" using assms by (rule step_score)
  have "check_collisions s4 = (\<exists>a \<in> set (asteroids s').
                 distance (real_of_int (self_x s'), self_y s')
                          (real_of_int (a_x a), real_of_int (a_y a))
                   \<le> real_of_int (radius s' + a_radius a))"
    by (simp add: check_collisions_def list_ex_iff s')
  moreover have "info ''score'' = Some (PyFloat (score s + reward))"
    by (simp add: info sc)
  moreover have "info ''alive'' = Some (PyBool (\<not> dn))"
    by (simp add: info)
  ultimately show ?thesis using dn rw sc by blast
qed

theorem reward_law_witness:
  "QUIT \<notin> set []
   \<and> step PyNone no_keys [] demo_env =
       Inr ((Some (get_observation demo_env_tick), 1 / 10, False,
             empty_dict(''score'' \<mapsto> PyFloat (1 / 10), ''alive'' \<mapsto> PyBool True)),
            demo_env_tick)
   \<and> \<not> (\<exists>a \<in> set (asteroids demo_env_tick).
                 distance (real_of_int (self_x demo_env_tick), self_y demo_env_tick)
                          (real_of_int (a_x a), real_of_int (a_y a))
                   \<le> real_of_int (radius demo_env_tick + a_radius a))
   \<and> score demo_env_tick = score demo_env + 1 / 10"
proof -
  have nq: "QUIT \<notin> set []" by simp
  from reward_law [OF nq step_demo] nq step_demo show ?thesis by simp
qed

section \<open>Observations\<close>

lemma get_observation_shape:
  "length (get_observation s) = LIDAR_RAYS \<and> (\<forall>v \<in> set (get_observation s). 0 \<le> v \<and> v \<le> 1)"
  using get_lidar_unit [of _ s] by (simp add: get_observation_def get_lidar_length)

text \<open>
  Claim C5, as the code has it. The observation that reset returns, and the observation of
  every step that completes a non-quit tick, is a sequence of exactly \<open>LIDAR_RAYS\<close> values,
  each in \<open>[0, 1]\<close>. The quit path of step returns no observation (\<^verbatim>\<open>None\<close>).
\<close>

theorem observation_shape:
  "length (fst (reset ta tb r)) = LIDAR_RAYS
   \<and> (\<forall>v \<in> set (fst (reset ta tb r)). 0 \<le> v \<and> v \<le> 1)
   \<and> (QUIT \<notin> set events \<and> step action keys events s = Inr ((obs, reward, dn, info), s')
        \<longrightarrow> (\<exists>vs. obs = Some vs \<and> length vs = LIDAR_RAYS \<and> (\<forall>v \<in> set vs. 0 \<le> v \<and> v \<le> 1)))
   \<and> (QUIT \<in> set evq
        \<longrightarrow> (\<exists>t. step action keys evq s = Inr ((None, 0, True, empty_dict), t)))"
proof -
  have "length (fst (reset ta tb r)) = LIDAR_RAYS
      \<and> (\<forall>v \<in> set (fst (reset ta tb r)). 0 \<le> v \<and> v \<le> 1)"
    unfolding reset_fields(9) by (rule get_observation_shape)
  moreover have "\<exists>vs. obs = Some vs \<and> length vs = LIDAR_RAYS \<and> (\<forall>v \<in> set vs. 0 \<le> v \<and> v \<le> 1)"
    if "QUIT \<notin> set events" "step action keys events s = Inr ((obs, reward, dn, info), s')"
  proof -
    from step_tick [OF that] have "obs = Some (get_observation s')" by blast
    then show ?thesis using get_observation_shape [of s'] by blast
  qed
  moreover have "\<exists>t. step action keys evq s = Inr ((None, 0, True, empty_dict), t)"
    if "QUIT \<in> set evq"
    using step_quit [OF that] by blast
  ultimately show ?thesis by blast
qed

theorem observation_shape_witness:
  "QUIT \<notin> set []
   \<and> step PyNone no_keys [] demo_env =
       Inr ((Some (get_observation demo_env_tick), 1 / 10, False,
             empty_dict(''score'' \<mapsto> PyFloat (1 / 10), ''alive'' \<mapsto> PyBool True)),
            demo_env_tick)
   \<and> length (get_observation demo_env_tick) = LIDAR_RAYS
   \<and> list_all (\<lambda>v. 0 \<le> v \<and> v \<le> 1) (get_observation demo_env_tick)
   \<and> length (fst (reset 0 0 (new_env demo_seed))) = LIDAR_RAYS
   \<and> QUIT \<in> set [QUIT]
   \<and> (\<exists>t. step PyNone no_keys [QUIT] demo_env = Inr ((None, 0, True, empty_dict), t))"
proof -
  have nq: "QUIT \<notin> set []" and q: "QUIT \<in> set [QUIT]" by simp_all
  note inst = observation_shape [where events = "[]" and action = PyNone and keys = no_keys
      and s = demo_env and obs = "Some (get_observation demo_env_tick)" and reward = "1 / 10"
      and dn = False
      and info = "empty_dict(''score'' \<mapsto> PyFloat (1 / 10), ''alive'' \<mapsto> PyBool True)"
      and s' = demo_env_tick and evq = "[QUIT]" and ta = 0 and tb = 0 and r = "new_env demo_seed"]
  from inst nq step_demo
  have "\<exists>vs. Some (get_observation demo_env_tick) = Some vs \<and> length vs = LIDAR_RAYS
      \<and> (\<forall>v \<in> set vs. 0 \<le> v \<and> v \<le> 1)"
    by blast
  then have a: "length (get_observation demo_env_tick) = LIDAR_RAYS
      \<and> list_all (\<lambda>v. 0 \<le> v \<and> v \<le> 1) (get_observation demo_env_tick)"
    by (simp add: list_all_iff)
  from inst have b: "length (fst (reset 0 0 (new_env demo_seed))) = LIDAR_RAYS" by blast
  from inst q have c: "\<exists>t. step PyNone no_keys [QUIT] demo_env = Inr ((None, 0, True, empty_dict), t)"
    by blast
  from nq step_demo a b q c show ?thesis by blast
qed

text \<open>The quit path at the concrete environment: the first component is \<^verbatim>\<open>None\<close>.\<close>

theorem observation_none_on_quit:
  "step PyNone no_keys [QUIT] demo_env = Inr ((None, 0, True, empty_dict), demo_env)"
  by (simp add: step_def)

section \<open>The quit signal\<close>

lemma handle_input_shots:
  "snd (handle_input events s) =
     (shoot ^^ length (filter (\<lambda>e. e = KEYDOWN K_SPACE) (takeWhile (\<lambda>e. e \<noteq> QUIT) events))) s"
proof (induction events arbitrary: s)
  case Nil
  show ?case by simp
next
  case (Cons e es)
  show ?case
  proof (cases "e = QUIT")
    case True
    then show ?thesis by simp
  next
    case False
    then show ?thesis using Cons [of s] Cons [of "shoot s"]
      by (simp add: funpow_swap1)
  qed
qed

lemma shoot_pow_frame:
  "self_x ((shoot ^^ n) s) = self_x s \<and> self_y ((shoot ^^ n) s) = self_y s \<and>
   asteroids ((shoot ^^ n) s) = asteroids s \<and> score ((shoot ^^ n) s) = score s \<and>
   radius ((shoot ^^ n) s) = radius s \<and> alive ((shoot ^^ n) s) = alive s \<and>
   rng_seed ((shoot ^^ n) s) = rng_seed s \<and> rng_pos ((shoot ^^ n) s) = rng_pos s \<and>
   last_recharge ((shoot ^^ n) s) = last_recharge s \<and> start_time ((shoot ^^ n) s) = start_time s"
  by (induction n) (simp_all add: shoot_frame)

lemma shoot_pow_blasts:
  "\<exists>k\<le>n. blasts ((shoot ^^ n) s) = blasts s - int k \<and>
          blasts_list ((shoot ^^ n) s) = blasts_list s @ replicate k \<lparr>b_x = self_x s, b_y = self_y s\<rparr>"
proof (induction n)
  case 0
  show ?case by simp
next
  case (Suc n)
  then obtain k where k: "k \<le> n" "blasts ((shoot ^^ n) s) = blasts s - int k"
    "blasts_list ((shoot ^^ n) s) = blasts_list s @ replicate k \<lparr>b_x = self_x s, b_y = self_y s\<rparr>"
    by blast
  show ?case
  proof (cases "0 < blasts ((shoot ^^ n) s)")
    case True
    have "blasts ((shoot ^^ Suc n) s) = blasts s - int (Suc k)"
      using True k(2) by (simp add: shoot_def)
    moreover have "blasts_list ((shoot ^^ Suc n) s) =
        blasts_list s @ replicate (Suc k) \<lparr>b_x = self_x s, b_y = self_y s\<rparr>"
      using True k(3) shoot_pow_frame [of n s] by (simp add: shoot_def replicate_append_same)
    ultimately show ?thesis using k(1) by (intro exI [of _ "Suc k"]) simp
  next
    case False
    then have "(shoot ^^ Suc n) s = (shoot ^^ n) s" by (simp add: shoot_def)
    then show ?thesis using k by (intro exI [of _ k]) simp
  qed
qed

text \<open>
  Claim C2, as the code has it. When the pending queue contains a quit signal, step returns
  \<^verbatim>\<open>(None, 0, True, {})\<close>. The events queued before the first quit signal are handled first:
  each space-bar key-down among them is a shoot (one charge less and one projectile more,
  at the player's position, while the charge is positive). Nothing else is mutated: no
  player movement, no obstacle update, no update of the projectiles already in flight, no
  score change. With no space-bar key-down before the quit signal the environment is
  unchanged.
\<close>

theorem quit_short_circuit:
  assumes "QUIT \<in> set events"
    and "s' = (shoot ^^ length (filter (\<lambda>e. e = KEYDOWN K_SPACE)
                                      (takeWhile (\<lambda>e. e \<noteq> QUIT) events))) s"
  shows "step action keys events s = Inr ((None, 0, True, empty_dict), s')
       \<and> self_x s' = self_x s \<and> self_y s' = self_y s \<and> radius s' = radius s
       \<and> asteroids s' = asteroids s \<and> score s' = score s \<and> alive s' = alive s
       \<and> rng_seed s' = rng_seed s \<and> rng_pos s' = rng_pos s
       \<and> (\<exists>k. blasts s' = blasts s - int k
              \<and> blasts_list s' = blasts_list s @ replicate k \<lparr>b_x = self_x s, b_y = self_y s\<rparr>)
       \<and> (QUIT \<in> set evq \<and> KEYDOWN K_SPACE \<notin> set (takeWhile (\<lambda>e. e \<noteq> QUIT) evq)
            \<longrightarrow> step action keys evq s = Inr ((None, 0, True, empty_dict), s))"
proof -
  have "step action keys events s = Inr ((None, 0, True, empty_dict), s')"
    using step_quit [OF assms(1)] by (simp add: assms(2) handle_input_shots)
  moreover have "\<exists>k. blasts s' = blasts s - int k
      \<and> blasts_list s' = blasts_list s @ replicate k \<lparr>b_x = self_x s, b_y = self_y s\<rparr>"
    unfolding assms(2) using shoot_pow_blasts by blast
  moreover have "step action keys evq s = Inr ((None, 0, True, empty_dict), s)"
    if "QUIT \<in> set evq" "KEYDOWN K_SPACE \<notin> set (takeWhile (\<lambda>e. e \<noteq> QUIT) evq)"
  proof -
    from that(2) have "filter (\<lambda>e. e = KEYDOWN K_SPACE) (takeWhile (\<lambda>e. e \<noteq> QUIT) evq) = []"
      by (auto simp add: filter_empty_conv)
    then show ?thesis using step_quit [OF that(1)] by (simp add: handle_input_shots)
  qed
  ultimately show ?thesis using shoot_pow_frame unfolding assms(2) by blast
qed

theorem quit_short_circuit_witness:
  "QUIT \<in> set [KEYDOWN K_SPACE, QUIT]
   \<and> step PyNone no_keys [KEYDOWN K_SPACE, QUIT] demo_env =
       Inr ((None, 0, True, empty_dict), shoot demo_env)
   \<and> asteroids (shoot demo_env) = asteroids demo_env
   \<and> score (shoot demo_env) = score demo_env
   \<and> self_y (shoot demo_env) = self_y demo_env
   \<and> QUIT \<in> set [OTHER_EVENT 0, QUIT, KEYDOWN K_SPACE]
   \<and> KEYDOWN K_SPACE \<notin> set (takeWhile (\<lambda>e. e \<noteq> QUIT) [OTHER_EVENT 0, QUIT, KEYDOWN K_SPACE])
   \<and> step PyNone no_keys [OTHER_EVENT 0, QUIT, KEYDOWN K_SPACE] demo_env =
       Inr ((None, 0, True, empty_dict), demo_env)"
proof -
  have q': "QUIT \<in> set [OTHER_EVENT 0, QUIT, KEYDOWN K_SPACE]"
    "KEYDOWN K_SPACE \<notin> set (takeWhile (\<lambda>e. e \<noteq> QUIT) [OTHER_EVENT 0, QUIT, KEYDOWN K_SPACE])"
    by simp_all
  have q: "QUIT \<in> set [KEYDOWN K_SPACE, QUIT]" by simp
  have s: "shoot demo_env = (shoot ^^ length (filter (\<lambda>e. e = KEYDOWN K_SPACE)
      (takeWhile (\<lambda>e. e \<noteq> QUIT) [KEYDOWN K_SPACE, QUIT]))) demo_env"
    by simp
  from quit_short_circuit [OF q s, of PyNone no_keys "[OTHER_EVENT 0, QUIT, KEYDOWN K_SPACE]"] q q'
  show ?thesis by blast
qed

text \<open>
  A shoot queued before the quit signal is carried out: the tick ends with charge 4 and one
  projectile, from charge 5 and none.
\<close>

theorem quit_after_shoot_mutates:
  "step PyNone no_keys [KEYDOWN K_SPACE, QUIT] demo_env =
     Inr ((None, 0, True, empty_dict),
          demo_env\<lparr>blasts := 4, blasts_list := [\<lparr>b_x = 400, b_y = 450\<rparr>]\<rparr>)
   \<and> blasts demo_env = 5 \<and> blasts_list demo_env = []"
  by (simp add: step_def shoot_def demo_env_def)

section \<open>Obstacles leaving the bottom\<close>

lemma new_asteroid_seed: "rng_seed (snd (new_asteroid s)) = rng_seed s"
  by (simp add: new_asteroid_state)

lemma new_asteroid_range:
  "0 \<le> a_x (fst (new_asteroid s)) \<and> a_x (fst (new_asteroid s)) \<le> WIDTH \<and>
   - HEIGHT \<le> a_y (fst (new_asteroid s)) \<and> a_y (fst (new_asteroid s)) \<le> 0 \<and>
   15 \<le> a_radius (fst (new_asteroid s)) \<and> a_radius (fst (new_asteroid s)) \<le> 40 \<and>
   a_speed (fst (new_asteroid s)) = ASTEROID_SPEED"
proof -
  have "0 \<le> WIDTH" "- HEIGHT \<le> 0" "(15::int) \<le> 40" by (simp_all add: WIDTH_def HEIGHT_def)
  from randint_range [OF this(1), of s]
    randint_range [OF this(2), of "snd (randint 0 WIDTH s)"]
    randint_range [OF this(3), of "snd (randint (- HEIGHT) 0 (snd (randint 0 WIDTH s)))"]
  show ?thesis by (simp add: new_asteroid_def Let_def split_beta)
qed

lemma spawn_asteroids_elems:
  "a \<in> set (fst (spawn_asteroids n s)) \<Longrightarrow> \<exists>t. rng_seed t = rng_seed s \<and> a = fst (new_asteroid t)"
proof (induction n arbitrary: s)
  case 0
  then show ?case by simp
next
  case (Suc n)
  from Suc.prems
  have "a = fst (new_asteroid s) \<or> a \<in> set (fst (spawn_asteroids n (snd (new_asteroid s))))"
    by (simp add: Let_def split_beta)
  then show ?case
  proof
    assume "a = fst (new_asteroid s)"
    then show ?thesis by blast
  next
    assume "a \<in> set (fst (spawn_asteroids n (snd (new_asteroid s))))"
    from Suc.IH [OF this] show ?thesis by (simp add: new_asteroid_seed)
  qed
qed

lemma respawn_offscreen_nth:
  "i < length as \<Longrightarrow>
   (a_y (as ! i) - a_radius (as ! i) \<le> HEIGHT \<longrightarrow> fst (respawn_offscreen as s) ! i = as ! i) \<and>
   (HEIGHT < a_y (as ! i) - a_radius (as ! i) \<longrightarrow>
      (\<exists>t. rng_seed t = rng_seed s \<and> fst (respawn_offscreen as s) ! i = fst (new_asteroid t)))"
proof (induction as arbitrary: s i)
  case Nil
  then show ?case by simp
next
  case (Cons a as)
  show ?case
  proof (cases i)
    case 0
    show ?thesis
    proof (cases "a_y a - a_radius a \<le> HEIGHT")
      case True
      then show ?thesis by (simp add: 0 split_beta)
    next
      case False
      then have "fst (respawn_offscreen (a # as) s) ! i = fst (new_asteroid s)"
        by (simp add: 0 split_beta Let_def)
      then show ?thesis using False by (auto simp add: 0)
    qed
  next
    case (Suc j)
    then have j: "j < length as" using Cons.prems by simp
    show ?thesis
    proof (cases "a_y a - a_radius a \<le> HEIGHT")
      case True
      then have "fst (respawn_offscreen (a # as) s) ! i = fst (respawn_offscreen as s) ! j"
        by (simp add: Suc split_beta)
      then show ?thesis using Cons.IH [OF j, of s] by (simp add: Suc)
    next
      case False
      then have "fst (respawn_offscreen (a # as) s) ! i
          = fst (respawn_offscreen as (snd (new_asteroid s))) ! j"
        by (simp add: Suc split_beta Let_def)
      then show ?thesis using Cons.IH [OF j, of "snd (new_asteroid s)"]
        by (simp add: Suc new_asteroid_seed)
    qed
  qed
qed

text \<open>
  Claim C4, as the code has it. In \<open>move_asteroids\<close> every obstacle first advances downward
  by its speed. An obstacle whose upper edge (centre y minus radius) is then still at or
  above the bottom bound is kept as moved; an obstacle whose upper edge has passed the bottom
  bound, so that the whole disc is below the window, is replaced at its place in the list, in
  the same call, by the result of \<open>new_asteroid\<close>, the function that reset uses for each of
  its obstacles. The number of obstacles is unchanged.
\<close>

theorem move_asteroids_respawn:
  assumes "i < length (asteroids s)"
  shows "length (asteroids (move_asteroids s)) = length (asteroids s)
       \<and> (a_y (asteroids s ! i) + a_speed (asteroids s ! i) - a_radius (asteroids s ! i) \<le> HEIGHT
            \<longrightarrow> asteroids (move_asteroids s) ! i
                  = (asteroids s ! i)\<lparr>a_y := a_y (asteroids s ! i) + a_speed (asteroids s ! i)\<rparr>)
       \<and> (HEIGHT < a_y (asteroids s ! i) + a_speed (asteroids s ! i) - a_radius (asteroids s ! i)
            \<longrightarrow> (\<exists>t. rng_seed t = rng_seed s
                      \<and> asteroids (move_asteroids s) ! i = fst (new_asteroid t)))
       \<and> (\<forall>a \<in> set (asteroids (snd (reset ta tb r))).
              \<exists>t. rng_seed t = rng_seed r \<and> a = fst (new_asteroid t))"
proof -
  define moved where "moved = map (\<lambda>a. a\<lparr>a_y := a_y a + a_speed a\<rparr>) (asteroids s)"
  have i: "i < length moved" using assms by (simp add: moved_def)
  have nth: "moved ! i = (asteroids s ! i)\<lparr>a_y := a_y (asteroids s ! i) + a_speed (asteroids s ! i)\<rparr>"
    using assms by (simp add: moved_def)
  have res: "asteroids (move_asteroids s) = fst (respawn_offscreen moved (s\<lparr>asteroids := moved\<rparr>))"
    by (simp add: move_asteroids_def moved_def Let_def split_beta)
  have "\<exists>t. rng_seed t = rng_seed r \<and> a = fst (new_asteroid t)"
    if "a \<in> set (asteroids (snd (reset ta tb r)))" for a
    using that spawn_asteroids_elems [of a ASTEROID_COUNT]
    by (simp add: reset_def Let_def split_beta) fastforce
  then show ?thesis
    using respawn_offscreen_nth [OF i, of "s\<lparr>asteroids := moved\<rparr>"] move_asteroids_length [of s]
    by (simp add: res nth)
qed

lemma move_asteroids_offscreen:
  "asteroids (move_asteroids offscreen_env) =
     [far_asteroid, moved_far_asteroid, moved_far_asteroid, moved_far_asteroid,
      moved_far_asteroid, moved_far_asteroid, moved_far_asteroid, moved_far_asteroid]"
  by (simp add: move_asteroids_def offscreen_env_def demo_env_def far_asteroid_def
      moved_far_asteroid_def Let_def HEIGHT_def new_asteroid_def randint_def demo_seed_def WIDTH_def ASTEROID_SPEED_def)

theorem move_asteroids_respawn_witness:
  "0 < length (asteroids offscreen_env) \<and> Suc 0 < length (asteroids offscreen_env)
   \<and> HEIGHT < a_y (asteroids offscreen_env ! 0) + a_speed (asteroids offscreen_env ! 0)
                - a_radius (asteroids offscreen_env ! 0)
   \<and> (\<exists>t. rng_seed t = rng_seed offscreen_env
          \<and> asteroids (move_asteroids offscreen_env) ! 0 = fst (new_asteroid t))
   \<and> a_y (asteroids offscreen_env ! Suc 0) + a_speed (asteroids offscreen_env ! Suc 0)
        - a_radius (asteroids offscreen_env ! Suc 0) \<le> HEIGHT
   \<and> asteroids (move_asteroids offscreen_env) ! Suc 0 = moved_far_asteroid
   \<and> length (asteroids (move_asteroids offscreen_env)) = 8"
proof -
  have a: "asteroids offscreen_env ! 0 = \<lparr>a_x = 100, a_y = 619, a_radius = 20, a_speed = 2\<rparr>"
    "asteroids offscreen_env ! Suc 0 = far_asteroid" "length (asteroids offscreen_env) = 8"
    by (simp_all add: offscreen_env_def)
  have h: "0 < length (asteroids offscreen_env)" "Suc 0 < length (asteroids offscreen_env)"
    by (simp_all add: a)
  have far: "far_asteroid\<lparr>a_y := a_y far_asteroid + a_speed far_asteroid\<rparr> = moved_far_asteroid"
    by (simp add: far_asteroid_def moved_far_asteroid_def)
  have c: "HEIGHT < a_y (asteroids offscreen_env ! 0) + a_speed (asteroids offscreen_env ! 0)
                - a_radius (asteroids offscreen_env ! 0)"
    "a_y (asteroids offscreen_env ! Suc 0) + a_speed (asteroids offscreen_env ! Suc 0)
        - a_radius (asteroids offscreen_env ! Suc 0) \<le> HEIGHT"
    by (simp_all add: a far_asteroid_def HEIGHT_def)
  from move_asteroids_respawn [OF h(1)] c(1)
  have r0: "\<exists>t. rng_seed t = rng_seed offscreen_env
          \<and> asteroids (move_asteroids offscreen_env) ! 0 = fst (new_asteroid t)"
    by blast
  from move_asteroids_respawn [OF h(2)] c(2)
  have r1: "asteroids (move_asteroids offscreen_env) ! Suc 0 = moved_far_asteroid"
    "length (asteroids (move_asteroids offscreen_env)) = 8"
    by (simp_all add: a far)
  from h c r0 r1 show ?thesis by blast
qed

text \<open>
  An obstacle at \<open>y = 590\<close> with radius 20 moves to 592: its lower edge, at 612, has passed
  the bottom bound 600, and the obstacle is kept.
\<close>

theorem lower_edge_past_bottom_kept:
  "asteroids (move_asteroids edge_env) =
     [\<lparr>a_x = 100, a_y = 592, a_radius = 20, a_speed = 2\<rparr>, moved_far_asteroid,
      moved_far_asteroid, moved_far_asteroid, moved_far_asteroid, moved_far_asteroid,
      moved_far_asteroid, moved_far_asteroid]
   \<and> HEIGHT < 592 + 20"
  by (simp add: move_asteroids_def edge_env_def demo_env_def far_asteroid_def
      moved_far_asteroid_def Let_def HEIGHT_def)

section \<open>Projectiles and hits\<close>

lemma collect_hits_subset: "set (collect_hits bs as) \<subseteq> set as"
proof (induction bs)
  case Nil
  show ?case by simp
next
  case (Cons b bs)
  show ?case
  proof (cases "find (blast_hit b) as")
    case None
    with Cons show ?thesis by simp
  next
    case (Some a)
    then have "a \<in> set as" by (auto simp add: find_Some_iff)
    with Cons Some show ?thesis by simp
  qed
qed

lemma new_asteroid_asteroids:
  "fst (new_asteroid (s\<lparr>asteroids := as\<rparr>)) = fst (new_asteroid s)"
  by (simp add: new_asteroid_def randint_def Let_def)

lemma check_blast_hits_single:
  assumes "collect_hits (blasts_list t) (asteroids t) = [h]"
  shows "check_blast_hits t =
           Inr (1, t\<lparr>asteroids := remove1 h (asteroids t) @ [fst (new_asteroid t)],
                     rng_pos := rng_pos t + 3\<rparr>)"
proof -
  have "h \<in> set (asteroids t)"
    using collect_hits_subset [of "blasts_list t" "asteroids t"] assms by simp
  then show ?thesis
    by (simp add: check_blast_hits_def assms Let_def split_beta new_asteroid_state
        new_asteroid_asteroids)
qed

lemma step_blasts_list:
  assumes nq: "QUIT \<notin> set events"
    and st: "step action keys events s = Inr ((obs, reward, dn, info), s')"
  shows "blasts_list s' =
           filter (\<lambda>b. 0 < b_y b)
                  (map (\<lambda>b. b\<lparr>b_y := b_y b - 7\<rparr>) (blasts_list (snd (handle_input events s))))"
proof -
  from step_tick [OF nq st]
  obtain n s4 where
    c: "check_blast_hits (move_blasts (move_asteroids (move_player keys (snd (handle_input events s))))) = Inr (n, s4)"
    and s': "s' = s4\<lparr>score := score s4 + reward\<rparr>"
    by blast
  have "blasts_list s' = blasts_list (move_blasts (move_asteroids (move_player keys (snd (handle_input events s)))))"
    using check_blast_hits_frame [OF c] by (simp add: s')
  also have "\<dots> = filter (\<lambda>b. 0 < b_y b)
                  (map (\<lambda>b. b\<lparr>b_y := b_y b - 7\<rparr>) (blasts_list (snd (handle_input events s))))"
    by (simp add: move_blasts_def move_asteroids_frame move_player_frame)
  finally show ?thesis .
qed

lemma new_asteroid_rng:
  "rng_seed a = rng_seed b \<Longrightarrow> rng_pos a = rng_pos b \<Longrightarrow>
   fst (new_asteroid a) = fst (new_asteroid b)"
  by (simp add: new_asteroid_def randint_def Let_def)

lemma spawn_asteroids_rng:
  "rng_seed a = rng_seed b \<Longrightarrow> rng_pos a = rng_pos b \<Longrightarrow>
   fst (spawn_asteroids k a) = fst (spawn_asteroids k b)"
proof (induction k arbitrary: a b)
  case 0
  show ?case by simp
next
  case (Suc k)
  have "fst (new_asteroid a) = fst (new_asteroid b)"
    using Suc.prems by (rule new_asteroid_rng)
  moreover have "fst (spawn_asteroids k (snd (new_asteroid a)))
      = fst (spawn_asteroids k (snd (new_asteroid b)))"
    by (rule Suc.IH) (simp_all add: new_asteroid_state Suc.prems)
  ultimately show ?case by (simp add: split_beta Let_def)
qed

text \<open>
  What the second loop of hit resolution leaves when it returns: for every hit in turn, its
  first occurrence removed and the next asteroid of the generator appended.
\<close>

lemma replace_hits_asteroids:
  "replace_hits hs s = Inr s' \<Longrightarrow>
   asteroids s' =
     foldl (\<lambda>as (h, a). remove1 h as @ [a]) (asteroids s)
           (zip hs (fst (spawn_asteroids (length hs) s)))"
proof (induction hs arbitrary: s)
  case Nil
  then show ?case by simp
next
  case (Cons h hs)
  show ?case
  proof (cases "h \<in> set (asteroids s)")
    case False
    with Cons.prems show ?thesis by simp
  next
    case True
    define t where "t = (snd (new_asteroid (s\<lparr>asteroids := remove1 h (asteroids s)\<rparr>)))\<lparr>asteroids := remove1 h (asteroids s) @ [fst (new_asteroid s)]\<rparr>"
    have run: "replace_hits hs t = Inr s'"
      using Cons.prems True
      by (simp add: t_def Let_def split_beta new_asteroid_state new_asteroid_asteroids)
    have rng: "rng_seed t = rng_seed (snd (new_asteroid s))" "rng_pos t = rng_pos (snd (new_asteroid s))"
      by (simp_all add: t_def new_asteroid_state)
    have "fst (spawn_asteroids (length hs) t) = fst (spawn_asteroids (length hs) (snd (new_asteroid s)))"
      using rng by (rule spawn_asteroids_rng)
    moreover have "asteroids t = remove1 h (asteroids s) @ [fst (new_asteroid s)]"
      by (simp add: t_def)
    ultimately show ?thesis
      using Cons.IH [OF run] by (simp add: split_beta Let_def)
  qed
qed

lemma replace_hits_distinct:
  "distinct hs \<Longrightarrow> set hs \<subseteq> set (asteroids s) \<Longrightarrow> \<exists>s'. replace_hits hs s = Inr s'"
proof (induction hs arbitrary: s)
  case Nil
  show ?case by simp
next
  case (Cons h hs)
  define t where "t = (snd (new_asteroid (s\<lparr>asteroids := remove1 h (asteroids s)\<rparr>)))\<lparr>asteroids := remove1 h (asteroids s) @ [fst (new_asteroid s)]\<rparr>"
  have h: "h \<in> set (asteroids s)" using Cons.prems by simp
  have "set hs \<subseteq> set (asteroids t)"
  proof
    fix x assume x: "x \<in> set hs"
    then have "x \<noteq> h" "x \<in> set (asteroids s)" using Cons.prems by auto
    then have "x \<in> set (remove1 h (asteroids s))" by simp
    then show "x \<in> set (asteroids t)" by (simp add: t_def)
  qed
  moreover have "distinct hs" using Cons.prems by simp
  ultimately obtain s' where "replace_hits hs t = Inr s'"
    using Cons.IH [of t] by blast
  then have "replace_hits (h # hs) s = Inr s'"
    using h by (simp add: t_def Let_def split_beta new_asteroid_state new_asteroid_asteroids)
  then show ?case by blast
qed

lemma collect_hits_struck:
  "b \<in> set bs \<Longrightarrow> a \<in> set as \<Longrightarrow> blast_hit b a \<Longrightarrow>
   \<exists>h \<in> set (collect_hits bs as). h \<in> set as \<and> blast_hit b h"
proof (induction bs)
  case Nil
  then show ?case by simp
next
  case (Cons c bs)
  show ?case
  proof (cases "b = c")
    case True
    from Cons.prems(2,3) have "find (blast_hit b) as \<noteq> None"
      by (auto simp add: find_None_iff)
    then obtain h where h: "find (blast_hit b) as = Some h" by blast
    then have "h \<in> set as \<and> blast_hit b h" by (auto simp add: find_Some_iff)
    then show ?thesis using h True by simp
  next
    case False
    then have "b \<in> set bs" using Cons.prems(1) by simp
    from Cons.IH [OF this Cons.prems(2,3)] show ?thesis
      by (cases "find (blast_hit c) as") auto
  qed
qed

lemma check_blast_hits_asteroids:
  assumes "check_blast_hits t = Inr (n, t')"
  shows "n = length (collect_hits (blasts_list t) (asteroids t))
       \<and> asteroids t' =
           foldl (\<lambda>as (h, a). remove1 h as @ [a]) (asteroids t)
                 (zip (collect_hits (blasts_list t) (asteroids t))
                      (fst (spawn_asteroids (length (collect_hits (blasts_list t) (asteroids t))) t)))"
  using assms replace_hits_asteroids [of "collect_hits (blasts_list t) (asteroids t)" t t']
  by (auto simp add: check_blast_hits_def Let_def split: sum.splits)

lemma check_blast_hits_distinct:
  assumes "distinct (collect_hits (blasts_list u) (asteroids u))"
  shows "\<exists>u'. check_blast_hits u = Inr (length (collect_hits (blasts_list u) (asteroids u)), u')"
proof -
  from replace_hits_distinct [OF assms collect_hits_subset]
  obtain u' where "replace_hits (collect_hits (blasts_list u) (asteroids u)) u = Inr u'" by blast
  then show ?thesis by (simp add: check_blast_hits_def)
qed

text \<open>
  Claim C3, as the code has it. A projectile leaves the live list only by leaving the top
  bound: after a non-quit tick that returns, the list is the list left by the tick's shoots,
  every projectile moved up by 7, without those whose y is no longer positive. Hit resolution
  never changes the projectile list, so a projectile within an obstacle's radius stays in
  the world. For such a projectile there is a struck obstacle, the first obstacle of the list
  that contains it. Whenever hit resolution returns, with any number of hits, the obstacles
  it leaves are the obstacles after the moves with, for every hit in turn, the struck
  obstacle removed and the next obstacle of the generator appended; so the number of
  obstacles is unchanged. It returns whenever no obstacle is struck twice.
\<close>

theorem projectile_lifetime:
  assumes "QUIT \<notin> set events"
    and "step action keys events s = Inr ((obs, reward, dn, info), s')"
    and "m = move_blasts (move_asteroids (move_player keys (snd (handle_input events s))))"
  shows "blasts_list s' =
           filter (\<lambda>b. 0 < b_y b)
                  (map (\<lambda>b. b\<lparr>b_y := b_y b - 7\<rparr>) (blasts_list (snd (handle_input events s))))
       \<and> blasts_list s' = blasts_list m
       \<and> asteroids s' =
           foldl (\<lambda>as (h, a). remove1 h as @ [a]) (asteroids m)
                 (zip (collect_hits (blasts_list m) (asteroids m))
                      (fst (spawn_asteroids (length (collect_hits (blasts_list m) (asteroids m))) m)))
       \<and> (b \<in> set (blasts_list m) \<and> a \<in> set (asteroids m) \<and> blast_hit b a \<longrightarrow>
            b \<in> set (blasts_list s')
            \<and> (\<exists>h \<in> set (collect_hits (blasts_list m) (asteroids m)).
                  h \<in> set (asteroids m) \<and> blast_hit b h))
       \<and> (check_blast_hits t = Inr (n, t') \<longrightarrow>
            blasts_list t' = blasts_list t \<and> length (asteroids t') = length (asteroids t)
            \<and> n = length (collect_hits (blasts_list t) (asteroids t))
            \<and> asteroids t' =
                foldl (\<lambda>as (h, a). remove1 h as @ [a]) (asteroids t)
                      (zip (collect_hits (blasts_list t) (asteroids t))
                           (fst (spawn_asteroids
                                  (length (collect_hits (blasts_list t) (asteroids t))) t))))
       \<and> (collect_hits (blasts_list u) (asteroids u) = [h] \<longrightarrow>
            check_blast_hits u =
              Inr (1, u\<lparr>asteroids := remove1 h (asteroids u) @ [fst (new_asteroid u)],
                        rng_pos := rng_pos u + 3\<rparr>))
       \<and> (distinct (collect_hits (blasts_list v) (asteroids v)) \<longrightarrow>
            (\<exists>v'. check_blast_hits v =
                    Inr (length (collect_hits (blasts_list v) (asteroids v)), v')))"
proof -
  from step_tick [OF assms(1,2)]
  obtain k s4 where
    c: "check_blast_hits m = Inr (k, s4)"
    and s': "s' = s4\<lparr>score := score s4 + reward\<rparr>"
    unfolding assms(3) by blast
  have bl: "blasts_list s' = blasts_list m"
    using check_blast_hits_frame [OF c] by (simp add: s')
  have ast: "asteroids s' =
           foldl (\<lambda>as (h, a). remove1 h as @ [a]) (asteroids m)
                 (zip (collect_hits (blasts_list m) (asteroids m))
                      (fst (spawn_asteroids (length (collect_hits (blasts_list m) (asteroids m))) m)))"
    using check_blast_hits_asteroids [OF c] by (simp add: s')
  have struck: "b \<in> set (blasts_list s')
            \<and> (\<exists>h \<in> set (collect_hits (blasts_list m) (asteroids m)).
                  h \<in> set (asteroids m) \<and> blast_hit b h)"
    if "b \<in> set (blasts_list m)" "a \<in> set (asteroids m)" "blast_hit b a"
    using that collect_hits_struck [OF that] by (simp add: bl)
  have res: "blasts_list t' = blasts_list t \<and> length (asteroids t') = length (asteroids t)
            \<and> n = length (collect_hits (blasts_list t) (asteroids t))
            \<and> asteroids t' =
                foldl (\<lambda>as (h, a). remove1 h as @ [a]) (asteroids t)
                      (zip (collect_hits (blasts_list t) (asteroids t))
                           (fst (spawn_asteroids
                                  (length (collect_hits (blasts_list t) (asteroids t))) t)))"
    if "check_blast_hits t = Inr (n, t')"
    using check_blast_hits_frame [OF that] check_blast_hits_asteroids [OF that] by simp
  show ?thesis
    using step_blasts_list [OF assms(1,2)] bl ast struck res
      check_blast_hits_single [of u h] check_blast_hits_distinct [of v]
    by blast
qed

lemma single_hit_moves:
  "move_blasts (move_asteroids (move_player no_keys single_hit_env)) =
     single_hit_env
       \<lparr>self_y := 312,
        asteroids := [\<lparr>a_x = 400, a_y = 92, a_radius = 40, a_speed = 2\<rparr>,
                      \<lparr>a_x = 0, a_y = - 508, a_radius = 15, a_speed = 2\<rparr>,
                      \<lparr>a_x = 0, a_y = - 508, a_radius = 15, a_speed = 2\<rparr>,
                      \<lparr>a_x = 0, a_y = - 508, a_radius = 15, a_speed = 2\<rparr>,
                      \<lparr>a_x = 0, a_y = - 508, a_radius = 15, a_speed = 2\<rparr>,
                      \<lparr>a_x = 0, a_y = - 508, a_radius = 15, a_speed = 2\<rparr>,
                      \<lparr>a_x = 0, a_y = - 508, a_radius = 15, a_speed = 2\<rparr>,
                      \<lparr>a_x = 0, a_y = - 508, a_radius = 15, a_speed = 2\<rparr>],
        blasts_list := [\<lparr>b_x = 400, b_y = 128\<rparr>]\<rparr>"
proof -
  have mp: "move_player no_keys single_hit_env = single_hit_env\<lparr>self_y := 312\<rparr>"
    by (simp add: move_player_def no_keys_def single_hit_env_def double_hit_env_def Let_def
        clip_def game_constants)
  show ?thesis
    unfolding mp
    by (simp add: move_asteroids_def move_blasts_def single_hit_env_def double_hit_env_def
        Let_def HEIGHT_def)
qed

lemma single_hit_resolution:
  "check_blast_hits (move_blasts (move_asteroids (move_player no_keys single_hit_env))) =
     Inr (1, single_hit_after\<lparr>score := 9 / 2\<rparr>)"
  unfolding single_hit_moves
  by (simp add: check_blast_hits_def blast_hit_def distance_le_iff single_hit_env_def
      double_hit_env_def single_hit_after_def Let_def new_asteroid_def randint_def
      demo_seed_def far_asteroid_def game_constants)

lemma step_single_hit:
  "step PyNone no_keys [] single_hit_env =
     Inr ((Some (get_observation single_hit_after), 1 / 10, False,
           empty_dict(''score'' \<mapsto> PyFloat (23 / 5), ''alive'' \<mapsto> PyBool True)),
          single_hit_after)"
proof -
  have cc: "\<not> check_collisions (single_hit_after\<lparr>score := 9 / 2\<rparr>)"
    by (simp add: check_collisions_def single_hit_after_def far_asteroid_def distance_le_iff)
  have sc: "single_hit_after\<lparr>score := 23 / 5\<rparr> = single_hit_after"
    by (simp add: single_hit_after_def)
  have sv: "score single_hit_after = 23 / 5" by (simp add: single_hit_after_def)
  show ?thesis
    by (simp add: step_def single_hit_resolution cc Let_def sc sv)
qed

theorem projectile_lifetime_witness:
  "QUIT \<notin> set []
   \<and> step PyNone no_keys [] single_hit_env =
       Inr ((Some (get_observation single_hit_after), 1 / 10, False,
             empty_dict(''score'' \<mapsto> PyFloat (23 / 5), ''alive'' \<mapsto> PyBool True)),
            single_hit_after)
   \<and> collect_hits
         (blasts_list (move_blasts (move_asteroids (move_player no_keys single_hit_env))))
         (asteroids (move_blasts (move_asteroids (move_player no_keys single_hit_env))))
       = [\<lparr>a_x = 400, a_y = 92, a_radius = 40, a_speed = 2\<rparr>]
   \<and> distinct (collect_hits
         (blasts_list (move_blasts (move_asteroids (move_player no_keys single_hit_env))))
         (asteroids (move_blasts (move_asteroids (move_player no_keys single_hit_env)))))
   \<and> \<lparr>b_x = 400, b_y = 128\<rparr>
       \<in> set (blasts_list (move_blasts (move_asteroids (move_player no_keys single_hit_env))))
   \<and> \<lparr>a_x = 400, a_y = 92, a_radius = 40, a_speed = 2\<rparr>
       \<in> set (asteroids (move_blasts (move_asteroids (move_player no_keys single_hit_env))))
   \<and> blast_hit \<lparr>b_x = 400, b_y = 128\<rparr> \<lparr>a_x = 400, a_y = 92, a_radius = 40, a_speed = 2\<rparr>
   \<and> \<lparr>b_x = 400, b_y = 128\<rparr> \<in> set (blasts_list single_hit_after)
   \<and> blasts_list single_hit_after =
       filter (\<lambda>b. 0 < b_y b) (map (\<lambda>b. b\<lparr>b_y := b_y b - 7\<rparr>) (blasts_list single_hit_env))
   \<and> asteroids single_hit_after =
       remove1 \<lparr>a_x = 400, a_y = 92, a_radius = 40, a_speed = 2\<rparr>
         (asteroids (move_blasts (move_asteroids (move_player no_keys single_hit_env))))
       @ [far_asteroid]
   \<and> check_blast_hits (move_blasts (move_asteroids (move_player no_keys single_hit_env))) =
       Inr (1, single_hit_after\<lparr>score := 9 / 2\<rparr>)
   \<and> blasts_list (single_hit_after\<lparr>score := 9 / 2\<rparr>) =
       blasts_list (move_blasts (move_asteroids (move_player no_keys single_hit_env)))"
proof -
  let ?m = "move_blasts (move_asteroids (move_player no_keys single_hit_env))"
  let ?a = "\<lparr>a_x = 400, a_y = 92, a_radius = 40, a_speed = 2\<rparr>"
  let ?b = "\<lparr>b_x = 400, b_y = 128\<rparr>"
  have nq: "QUIT \<notin> set []" by simp
  have m: "?m = move_blasts (move_asteroids (move_player no_keys (snd (handle_input [] single_hit_env))))"
    by simp
  have hits: "collect_hits (blasts_list ?m) (asteroids ?m) = [?a]"
    unfolding single_hit_moves by (simp add: blast_hit_def distance_le_iff)
  have dist: "distinct (collect_hits (blasts_list ?m) (asteroids ?m))"
    by (simp only: hits distinct.simps set_simps) simp
  have mem: "?b \<in> set (blasts_list ?m)" "?a \<in> set (asteroids ?m)"
    unfolding single_hit_moves by simp_all
  have hit: "blast_hit ?b ?a" by (simp add: blast_hit_def distance_le_iff)
  have fresh: "fst (new_asteroid ?m) = far_asteroid"
    unfolding single_hit_moves
    by (simp add: new_asteroid_def randint_def single_hit_env_def double_hit_env_def
        demo_seed_def far_asteroid_def game_constants)
  note inst = projectile_lifetime [OF nq step_single_hit m, where t = ?m and n = 1
      and t' = "single_hit_after\<lparr>score := 9 / 2\<rparr>" and u = ?m and v = ?m
      and h = ?a and a = ?a and b = ?b]
  from inst have a: "blasts_list single_hit_after =
       filter (\<lambda>b. 0 < b_y b) (map (\<lambda>b. b\<lparr>b_y := b_y b - 7\<rparr>) (blasts_list single_hit_env))"
    by simp
  from inst mem hit have b: "?b \<in> set (blasts_list single_hit_after)" by blast
  from inst have "asteroids single_hit_after =
           foldl (\<lambda>as (h, a). remove1 h as @ [a]) (asteroids ?m)
                 (zip (collect_hits (blasts_list ?m) (asteroids ?m))
                      (fst (spawn_asteroids (length (collect_hits (blasts_list ?m) (asteroids ?m))) ?m)))"
    by blast
  then have c: "asteroids single_hit_after = remove1 ?a (asteroids ?m) @ [far_asteroid]"
    by (simp add: hits fresh split_beta Let_def)
  from inst single_hit_resolution
  have d: "blasts_list (single_hit_after\<lparr>score := 9 / 2\<rparr>) = blasts_list ?m"
    by blast
  from nq step_single_hit hits dist mem hit b a c single_hit_resolution d show ?thesis by blast
qed

text \<open>
  In this tick the projectile, moved to \<open>(400, 128)\<close>, is within the radius 40 of the
  asteroid at \<open>(400, 92)\<close>. The asteroid is replaced; the projectile is still in the list
  when step returns.
\<close>

theorem projectile_survives_hit:
  "step PyNone no_keys [] single_hit_env =
     Inr ((Some (get_observation single_hit_after), 1 / 10, False,
           empty_dict(''score'' \<mapsto> PyFloat (23 / 5), ''alive'' \<mapsto> PyBool True)),
          single_hit_after)
   \<and> blast_hit \<lparr>b_x = 400, b_y = 128\<rparr> \<lparr>a_x = 400, a_y = 92, a_radius = 40, a_speed = 2\<rparr>
   \<and> blasts_list single_hit_after = [\<lparr>b_x = 400, b_y = 128\<rparr>]"
proof -
  have "blast_hit \<lparr>b_x = 400, b_y = 128\<rparr> \<lparr>a_x = 400, a_y = 92, a_radius = 40, a_speed = 2\<rparr>"
    by (simp add: blast_hit_def distance_le_iff)
  moreover have "blasts_list single_hit_after = [\<lparr>b_x = 400, b_y = 128\<rparr>]"
    by (simp add: single_hit_after_def)
  ultimately show ?thesis using step_single_hit by blast
qed

section \<open>The number of obstacles\<close>

lemma step_asteroid_count:
  assumes st: "step action keys events s = Inr (res, s')"
  shows "length (asteroids s') = length (asteroids s)"
proof (cases "QUIT \<in> set events")
  case True
  from step_quit [OF True, of action keys s] st
  have "s' = snd (handle_input events s)" by simp
  then show ?thesis using handle_input_frame [of events s] by simp
next
  case False
  obtain obs reward dn info where res: "res = (obs, reward, dn, info)"
    by (cases res) auto
  from step_tick [OF False st [unfolded res]]
  obtain n s4 where
    c: "check_blast_hits (move_blasts (move_asteroids (move_player keys (snd (handle_input events s))))) = Inr (n, s4)"
    and s': "s' = s4\<lparr>score := score s4 + reward\<rparr>"
    by blast
  show ?thesis
    using check_blast_hits_frame [OF c] handle_input_frame [of events s]
    by (simp add: s' move_blasts_frame move_asteroids_length move_player_frame)
qed

lemma reachable_asteroid_count: "reachable s \<Longrightarrow> length (asteroids s) = ASTEROID_COUNT"
proof (induction rule: reachable.induct)
  case (reach_reset t1 t2 s)
  show ?case by (rule reset_fields)
next
  case (reach_step s action keys events res s')
  show ?case
    unfolding step_asteroid_count [OF reach_step.hyps(2)] by (rule reach_step.IH)
qed

subsection \<open>Two projectiles in one obstacle\<close>

lemma double_hit_moves:
  "move_blasts (move_asteroids (move_player no_keys double_hit_env)) =
     double_hit_env
       \<lparr>self_y := 312,
        asteroids := [\<lparr>a_x = 400, a_y = 92, a_radius = 40, a_speed = 2\<rparr>,
                      \<lparr>a_x = 0, a_y = - 508, a_radius = 15, a_speed = 2\<rparr>,
                      \<lparr>a_x = 0, a_y = - 508, a_radius = 15, a_speed = 2\<rparr>,
                      \<lparr>a_x = 0, a_y = - 508, a_radius = 15, a_speed = 2\<rparr>,
                      \<lparr>a_x = 0, a_y = - 508, a_radius = 15, a_speed = 2\<rparr>,
                      \<lparr>a_x = 0, a_y = - 508, a_radius = 15, a_speed = 2\<rparr>,
                      \<lparr>a_x = 0, a_y = - 508, a_radius = 15, a_speed = 2\<rparr>,
                      \<lparr>a_x = 0, a_y = - 508, a_radius = 15, a_speed = 2\<rparr>],
        blasts_list := [\<lparr>b_x = 400, b_y = 128\<rparr>, \<lparr>b_x = 400, b_y = 128\<rparr>]\<rparr>"
proof -
  have mp: "move_player no_keys double_hit_env = double_hit_env\<lparr>self_y := 312\<rparr>"
    by (simp add: move_player_def no_keys_def double_hit_env_def Let_def clip_def game_constants)
  show ?thesis
    unfolding mp
    by (simp add: move_asteroids_def move_blasts_def double_hit_env_def Let_def HEIGHT_def)
qed

lemma double_hit_resolution:
  "check_blast_hits (move_blasts (move_asteroids (move_player no_keys double_hit_env))) =
     Inl ValueError"
  unfolding double_hit_moves
  by (simp add: check_blast_hits_def blast_hit_def distance_le_iff double_hit_env_def Let_def
      new_asteroid_def randint_def demo_seed_def game_constants)


subsection \<open>The flight of the projectiles\<close>

lemma replicate_numeral: "replicate (numeral k) x = x # replicate (pred_numeral k) x"
  by (simp add: numeral_eq_Suc)

lemma abs_fst_le_distance: "\<bar>fst a - fst b\<bar> \<le> distance a b"
  unfolding distance_def by (rule real_le_rsqrt) simp

lemma abs_snd_le_distance: "\<bar>snd a - snd b\<bar> \<le> distance a b"
  unfolding distance_def by (rule real_le_rsqrt) simp

lemma respawn_offscreen_none:
  "\<forall>a \<in> set as. a_y a - a_radius a \<le> HEIGHT \<Longrightarrow> respawn_offscreen as s = (as, s)"
  by (induction as) simp_all

lemma collect_hits_none:
  "\<forall>b \<in> set bs. \<forall>a \<in> set as. \<not> blast_hit b a \<Longrightarrow> collect_hits bs as = []"
proof (induction bs)
  case Nil
  show ?case by simp
next
  case (Cons b bs)
  then have "find (blast_hit b) as = None" by (simp add: find_None_iff)
  with Cons show ?case by simp
qed

lemma step_after_input:
  "handle_input events s = (False, s0) \<Longrightarrow> step action keys events s = step action keys [] s0"
  by (simp add: step_def)

lemma flight_move_player:
  "k \<le> 44 \<Longrightarrow>
   move_player no_keys (flight_env n k) =
     (flight_env n k)\<lparr>self_y := max 300 (450 - 3 * real (Suc k))\<rparr>"
  by (simp add: move_player_def no_keys_def flight_env_def Let_def clip_def game_constants)

lemma flight_move_asteroids:
  "k \<le> 44 \<Longrightarrow>
   move_asteroids ((flight_env n k)\<lparr>self_y := y'\<rparr>) =
     (flight_env n k)
       \<lparr>self_y := y',
        asteroids := \<lparr>a_x = 400, a_y = 2 * int (Suc k), a_radius = 40, a_speed = 2\<rparr>
            # replicate 7 \<lparr>a_x = 0, a_y = 2 * int (Suc k) - 600, a_radius = 15, a_speed = 2\<rparr>\<rparr>"
  by (simp add: move_asteroids_def flight_env_def Let_def respawn_offscreen_none HEIGHT_def)

text \<open>The environment in the middle of tick \<open>k + 1\<close>, after the three moves.\<close>

lemma flight_moves:
  assumes "k \<le> 44"
  shows "move_blasts (move_asteroids (move_player no_keys (flight_env n k))) =
           (flight_env n (Suc k))\<lparr>score := real k / 10\<rparr>"
proof -
  have "0 < 450 - 7 * real (Suc k)" using assms by simp
  then have "move_blasts ((flight_env n k)
       \<lparr>self_y := max 300 (450 - 3 * real (Suc k)),
        asteroids := \<lparr>a_x = 400, a_y = 2 * int (Suc k), a_radius = 40, a_speed = 2\<rparr>
            # replicate 7 \<lparr>a_x = 0, a_y = 2 * int (Suc k) - 600, a_radius = 15, a_speed = 2\<rparr>\<rparr>)
      = (flight_env n (Suc k))\<lparr>score := real k / 10\<rparr>"
    by (simp add: move_blasts_def flight_env_def algebra_simps)
  then show ?thesis
    by (simp only: flight_move_player [OF assms] flight_move_asteroids [OF assms])
qed

lemma flight_no_hit:
  assumes "k \<le> 44"
    and "b \<in> set (blasts_list (flight_env n (Suc k)))"
    and "a \<in> set (asteroids (flight_env n (Suc k)))"
  shows "\<not> blast_hit b a"
proof -
  have b: "b = \<lparr>b_x = 400, b_y = 450 - 7 * real (Suc k)\<rparr>"
    using assms(2) by (simp add: flight_env_def)
  from assms(3) have "a = \<lparr>a_x = 400, a_y = 2 * int (Suc k), a_radius = 40, a_speed = 2\<rparr>
      \<or> a = \<lparr>a_x = 0, a_y = 2 * int (Suc k) - 600, a_radius = 15, a_speed = 2\<rparr>"
    by (auto simp add: flight_env_def)
  then show ?thesis
  proof
    assume a: "a = \<lparr>a_x = 400, a_y = 2 * int (Suc k), a_radius = 40, a_speed = 2\<rparr>"
    have "40 < \<bar>450 - 7 * real (Suc k) - real_of_int (2 * int (Suc k))\<bar>"
      using assms(1) by simp
    also have "\<dots> \<le> distance (400, 450 - 7 * real (Suc k)) (400, real_of_int (2 * int (Suc k)))"
      using abs_snd_le_distance [of "(400, 450 - 7 * real (Suc k))" "(400, real_of_int (2 * int (Suc k)))"]
      by simp
    finally show ?thesis by (simp add: blast_hit_def a b)
  next
    assume a: "a = \<lparr>a_x = 0, a_y = 2 * int (Suc k) - 600, a_radius = 15, a_speed = 2\<rparr>"
    have "15 < \<bar>400 - (0::real)\<bar>" by simp
    also have "\<dots> \<le> distance (400, 450 - 7 * real (Suc k)) (0, real_of_int (2 * int (Suc k) - 600))"
      using abs_fst_le_distance [of "(400, 450 - 7 * real (Suc k))" "(0, real_of_int (2 * int (Suc k) - 600))"]
      by simp
    finally show ?thesis by (simp add: blast_hit_def a b)
  qed
qed

lemma flight_no_collision:
  assumes "k \<le> 44"
  shows "\<not> check_collisions ((flight_env n (Suc k))\<lparr>score := c\<rparr>)"
proof -
  have far: "\<not> distance (400, max 300 (450 - 3 * real (Suc k))) (0, real_of_int (2 * int (Suc k) - 600)) \<le> 30"
  proof -
    have "30 < \<bar>400 - (0::real)\<bar>" by simp
    also have "\<dots> \<le> distance (400, max 300 (450 - 3 * real (Suc k))) (0, real_of_int (2 * int (Suc k) - 600))"
      using abs_fst_le_distance [of "(400, max 300 (450 - 3 * real (Suc k)))" "(0, real_of_int (2 * int (Suc k) - 600))"]
      by simp
    finally show ?thesis by simp
  qed
  have near: "\<not> distance (400, max 300 (450 - 3 * real (Suc k))) (400, real_of_int (2 * int (Suc k))) \<le> 55"
  proof -
    have "55 < \<bar>max 300 (450 - 3 * real (Suc k)) - real_of_int (2 * int (Suc k))\<bar>"
      using assms by simp
    also have "\<dots> \<le> distance (400, max 300 (450 - 3 * real (Suc k))) (400, real_of_int (2 * int (Suc k)))"
      using abs_snd_le_distance [of "(400, max 300 (450 - 3 * real (Suc k)))" "(400, real_of_int (2 * int (Suc k)))"]
      by simp
    finally show ?thesis by simp
  qed
  show ?thesis
    using far near by (simp add: check_collisions_def flight_env_def list_ex_iff)
qed

lemma flight_step:
  assumes "k \<le> 44"
  shows "step PyNone no_keys [] (flight_env n k) =
           Inr ((Some (get_observation (flight_env n (Suc k))), 1 / 10, False,
                 empty_dict(''score'' \<mapsto> PyFloat (score (flight_env n (Suc k))),
                            ''alive'' \<mapsto> PyBool True)),
                flight_env n (Suc k))"
proof -
  have "collect_hits (blasts_list (flight_env n (Suc k))) (asteroids (flight_env n (Suc k))) = []"
    using flight_no_hit [OF assms] by (intro collect_hits_none) blast
  then have cb: "check_blast_hits ((flight_env n (Suc k))\<lparr>score := real k / 10\<rparr>)
      = Inr (0, (flight_env n (Suc k))\<lparr>score := real k / 10\<rparr>)"
    by (simp add: check_blast_hits_def)
  have sc: "(flight_env n (Suc k))\<lparr>score := real k / 10 + 1 / 10\<rparr> = flight_env n (Suc k)"
    by (simp add: flight_env_def add_divide_distrib)
  have sv: "score (flight_env n (Suc k)) = real k / 10 + 1 / 10"
    by (simp add: flight_env_def add_divide_distrib)
  show ?thesis
    by (simp add: step_def flight_moves [OF assms] cb flight_no_collision [OF assms] Let_def sc sv)
qed

lemma reachable_flight_start:
  "reachable (flight_env 2 (Suc 0))" "reachable (flight_env 1 (Suc 0))"
proof -
  have two: "handle_input [KEYDOWN K_SPACE, KEYDOWN K_SPACE] demo_env = (False, flight_env 2 0)"
    by (simp add: shoot_def demo_env_def flight_env_def far_asteroid_def replicate_numeral)
  have one: "handle_input [KEYDOWN K_SPACE] demo_env = (False, flight_env 1 0)"
    by (simp add: shoot_def demo_env_def flight_env_def far_asteroid_def replicate_numeral)
  have "step PyNone no_keys [KEYDOWN K_SPACE, KEYDOWN K_SPACE] demo_env =
      Inr ((Some (get_observation (flight_env 2 (Suc 0))), 1 / 10, False,
            empty_dict(''score'' \<mapsto> PyFloat (score (flight_env 2 (Suc 0))),
                       ''alive'' \<mapsto> PyBool True)),
           flight_env 2 (Suc 0))"
    unfolding step_after_input [OF two] by (rule flight_step) simp
  with reachable_demo show "reachable (flight_env 2 (Suc 0))" by (rule reach_step)
  have "step PyNone no_keys [KEYDOWN K_SPACE] demo_env =
      Inr ((Some (get_observation (flight_env 1 (Suc 0))), 1 / 10, False,
            empty_dict(''score'' \<mapsto> PyFloat (score (flight_env 1 (Suc 0))),
                       ''alive'' \<mapsto> PyBool True)),
           flight_env 1 (Suc 0))"
    unfolding step_after_input [OF one] by (rule flight_step) simp
  with reachable_demo show "reachable (flight_env 1 (Suc 0))" by (rule reach_step)
qed

lemma reachable_flight:
  "k \<le> 44 \<Longrightarrow> reachable (flight_env 2 (Suc k)) \<and> reachable (flight_env 1 (Suc k))"
proof (induction k)
  case 0
  show ?case using reachable_flight_start by simp
next
  case (Suc k)
  then have k: "Suc k \<le> 44" and IH: "reachable (flight_env 2 (Suc k))" "reachable (flight_env 1 (Suc k))"
    by simp_all
  from IH(1) flight_step [OF k, of 2] have "reachable (flight_env 2 (Suc (Suc k)))"
    by (rule reach_step)
  moreover from IH(2) flight_step [OF k, of 1] have "reachable (flight_env 1 (Suc (Suc k)))"
    by (rule reach_step)
  ultimately show ?case by simp
qed

lemma flight_end:
  "flight_env 2 45 = double_hit_env" "flight_env 1 45 = single_hit_env"
  by (simp_all add: flight_env_def double_hit_env_def single_hit_env_def replicate_numeral)

lemma reachable_hit_envs: "reachable double_hit_env" "reachable single_hit_env"
proof -
  have e: "Suc 44 = 45" by simp
  from reachable_flight [of 44]
  have "reachable (flight_env 2 45) \<and> reachable (flight_env 1 45)"
    unfolding e by simp
  then show "reachable double_hit_env" "reachable single_hit_env"
    unfolding flight_end by blast+
qed

text \<open>
  Claim C1 says that every step completes with \<open>ASTEROID_COUNT\<close> obstacles, also when two
  projectiles are within the radius of the same obstacle. In the reachable environment
  \<open>double_hit_env\<close> (lemma \<open>reachable_hit_envs\<close>) the two projectiles move to \<open>(400, 128)\<close>
  and the first obstacle to \<open>(400, 92)\<close> with radius 40: both projectiles record it as
  their hit, its second removal from the list finds no such element, and the step ends
  with \<^verbatim>\<open>ValueError\<close> instead of returning. Steps that do return keep the number of
  obstacles (lemma \<open>reachable_asteroid_count\<close>).
\<close>

theorem step_double_hit_raises:
  "step PyNone no_keys [] double_hit_env = Inl ValueError"
  by (simp add: step_def double_hit_resolution)

section \<open>A struck obstacle does not end the episode\<close>

lemma shield_moves:
  "move_blasts (move_asteroids (move_player no_keys shield_env)) =
     shield_env
       \<lparr>asteroids := [\<lparr>a_x = 400, a_y = 246, a_radius = 40, a_speed = 2\<rparr>,
                      \<lparr>a_x = 0, a_y = - 354, a_radius = 15, a_speed = 2\<rparr>,
                      \<lparr>a_x = 0, a_y = - 354, a_radius = 15, a_speed = 2\<rparr>,
                      \<lparr>a_x = 0, a_y = - 354, a_radius = 15, a_speed = 2\<rparr>,
                      \<lparr>a_x = 0, a_y = - 354, a_radius = 15, a_speed = 2\<rparr>,
                      \<lparr>a_x = 0, a_y = - 354, a_radius = 15, a_speed = 2\<rparr>,
                      \<lparr>a_x = 0, a_y = - 354, a_radius = 15, a_speed = 2\<rparr>,
                      \<lparr>a_x = 0, a_y = - 354, a_radius = 15, a_speed = 2\<rparr>],
        blasts_list := [\<lparr>b_x = 400, b_y = 279\<rparr>]\<rparr>"
proof -
  have mp: "move_player no_keys shield_env = shield_env"
    by (simp add: move_player_def no_keys_def shield_env_def Let_def clip_def game_constants)
  show ?thesis
    unfolding mp
    by (simp add: move_asteroids_def move_blasts_def shield_env_def Let_def HEIGHT_def)
qed

lemma shield_collision_after_moves:
  "check_collisions (move_blasts (move_asteroids (move_player no_keys shield_env)))"
  unfolding shield_moves
  by (simp add: check_collisions_def shield_env_def distance_le_iff)

lemma shield_resolution:
  "check_blast_hits (move_blasts (move_asteroids (move_player no_keys shield_env))) =
     Inr (1, shield_after\<lparr>score := 61 / 5\<rparr>)"
  unfolding shield_moves
  by (simp add: check_blast_hits_def blast_hit_def distance_le_iff shield_env_def
      shield_after_def Let_def new_asteroid_def randint_def demo_seed_def far_asteroid_def
      game_constants)

lemma step_shield:
  "step PyNone no_keys [] shield_env =
     Inr ((Some (get_observation shield_after), 1 / 10, False,
           empty_dict(''score'' \<mapsto> PyFloat (123 / 10), ''alive'' \<mapsto> PyBool True)),
          shield_after)"
proof -
  have cc: "\<not> check_collisions (shield_after\<lparr>score := 61 / 5\<rparr>)"
    by (simp add: check_collisions_def shield_after_def far_asteroid_def distance_le_iff)
  have sc: "shield_after\<lparr>score := 123 / 10\<rparr> = shield_after"
    by (simp add: shield_after_def)
  have sv: "score shield_after = 123 / 10" by (simp add: shield_after_def)
  show ?thesis
    by (simp add: step_def shield_resolution cc Let_def sc sv)
qed

subsection \<open>The way to this environment\<close>

lemma idle_moves:
  assumes "k \<le> 119"
  shows "move_blasts (move_asteroids (move_player no_keys (flight_env 0 k))) =
           (flight_env 0 (Suc k))\<lparr>score := real k / 10\<rparr>"
proof -
  have mp: "move_player no_keys (flight_env 0 k) =
      (flight_env 0 k)\<lparr>self_y := max 300 (450 - 3 * real (Suc k))\<rparr>"
    by (simp add: move_player_def no_keys_def flight_env_def Let_def clip_def game_constants)
  have ma: "move_asteroids ((flight_env 0 k)\<lparr>self_y := max 300 (450 - 3 * real (Suc k))\<rparr>) =
      (flight_env 0 k)
       \<lparr>self_y := max 300 (450 - 3 * real (Suc k)),
        asteroids := \<lparr>a_x = 400, a_y = 2 * int (Suc k), a_radius = 40, a_speed = 2\<rparr>
            # replicate 7 \<lparr>a_x = 0, a_y = 2 * int (Suc k) - 600, a_radius = 15, a_speed = 2\<rparr>\<rparr>"
    using assms
    by (simp add: move_asteroids_def flight_env_def Let_def respawn_offscreen_none HEIGHT_def)
  show ?thesis
    unfolding mp ma by (simp add: move_blasts_def flight_env_def)
qed

lemma idle_no_collision:
  assumes "k \<le> 119"
  shows "\<not> check_collisions ((flight_env 0 (Suc k))\<lparr>score := c\<rparr>)"
proof -
  have far: "\<not> distance (400, max 300 (450 - 3 * real (Suc k))) (0, real_of_int (2 * int (Suc k) - 600)) \<le> 30"
  proof -
    have "30 < \<bar>400 - (0::real)\<bar>" by simp
    also have "\<dots> \<le> distance (400, max 300 (450 - 3 * real (Suc k))) (0, real_of_int (2 * int (Suc k) - 600))"
      using abs_fst_le_distance [of "(400, max 300 (450 - 3 * real (Suc k)))" "(0, real_of_int (2 * int (Suc k) - 600))"]
      by simp
    finally show ?thesis by simp
  qed
  have near: "\<not> distance (400, max 300 (450 - 3 * real (Suc k))) (400, real_of_int (2 * int (Suc k))) \<le> 55"
  proof -
    have "55 < \<bar>max 300 (450 - 3 * real (Suc k)) - real_of_int (2 * int (Suc k))\<bar>"
      using assms by simp
    also have "\<dots> \<le> distance (400, max 300 (450 - 3 * real (Suc k))) (400, real_of_int (2 * int (Suc k)))"
      using abs_snd_le_distance [of "(400, max 300 (450 - 3 * real (Suc k)))" "(400, real_of_int (2 * int (Suc k)))"]
      by simp
    finally show ?thesis by simp
  qed
  show ?thesis
    using far near by (simp add: check_collisions_def flight_env_def list_ex_iff)
qed

lemma idle_step:
  assumes "k \<le> 119"
  shows "step PyNone no_keys [] (flight_env 0 k) =
           Inr ((Some (get_observation (flight_env 0 (Suc k))), 1 / 10, False,
                 empty_dict(''score'' \<mapsto> PyFloat (score (flight_env 0 (Suc k))),
                            ''alive'' \<mapsto> PyBool True)),
                flight_env 0 (Suc k))"
proof -
  have cb: "check_blast_hits ((flight_env 0 (Suc k))\<lparr>score := real k / 10\<rparr>)
      = Inr (0, (flight_env 0 (Suc k))\<lparr>score := real k / 10\<rparr>)"
    by (simp add: check_blast_hits_def flight_env_def)
  have sc: "(flight_env 0 (Suc k))\<lparr>score := real k / 10 + 1 / 10\<rparr> = flight_env 0 (Suc k)"
    by (simp add: flight_env_def add_divide_distrib)
  have sv: "score (flight_env 0 (Suc k)) = real k / 10 + 1 / 10"
    by (simp add: flight_env_def add_divide_distrib)
  show ?thesis
    by (simp add: step_def idle_moves [OF assms] cb idle_no_collision [OF assms] Let_def sc sv)
qed

lemma reachable_idle: "k \<le> 120 \<Longrightarrow> reachable (flight_env 0 k)"
proof (induction k)
  case 0
  have "flight_env 0 0 = demo_env"
    by (simp add: flight_env_def demo_env_def far_asteroid_def replicate_numeral)
  then show ?case using reachable_demo by simp
next
  case (Suc k)
  then have k: "k \<le> 119" and IH: "reachable (flight_env 0 k)" by simp_all
  from IH idle_step [OF k] show ?case by (rule reach_step)
qed

lemma idle_end:
  "flight_env 0 120 =
     shield_env
       \<lparr>blasts := 5, score := 12,
        asteroids := [\<lparr>a_x = 400, a_y = 240, a_radius = 40, a_speed = 2\<rparr>,
                      \<lparr>a_x = 0, a_y = - 360, a_radius = 15, a_speed = 2\<rparr>,
                      \<lparr>a_x = 0, a_y = - 360, a_radius = 15, a_speed = 2\<rparr>,
                      \<lparr>a_x = 0, a_y = - 360, a_radius = 15, a_speed = 2\<rparr>,
                      \<lparr>a_x = 0, a_y = - 360, a_radius = 15, a_speed = 2\<rparr>,
                      \<lparr>a_x = 0, a_y = - 360, a_radius = 15, a_speed = 2\<rparr>,
                      \<lparr>a_x = 0, a_y = - 360, a_radius = 15, a_speed = 2\<rparr>,
                      \<lparr>a_x = 0, a_y = - 360, a_radius = 15, a_speed = 2\<rparr>],
        blasts_list := []\<rparr>"
  by (simp add: flight_env_def shield_env_def replicate_numeral)

lemma step_shoot_at_120:
  "step PyNone no_keys [KEYDOWN K_SPACE] (flight_env 0 120) =
     Inr ((Some (get_observation
                  (shield_env
                     \<lparr>score := 121 / 10,
                      asteroids := [\<lparr>a_x = 400, a_y = 242, a_radius = 40, a_speed = 2\<rparr>,
                      \<lparr>a_x = 0, a_y = - 358, a_radius = 15, a_speed = 2\<rparr>,
                      \<lparr>a_x = 0, a_y = - 358, a_radius = 15, a_speed = 2\<rparr>,
                      \<lparr>a_x = 0, a_y = - 358, a_radius = 15, a_speed = 2\<rparr>,
                      \<lparr>a_x = 0, a_y = - 358, a_radius = 15, a_speed = 2\<rparr>,
                      \<lparr>a_x = 0, a_y = - 358, a_radius = 15, a_speed = 2\<rparr>,
                      \<lparr>a_x = 0, a_y = - 358, a_radius = 15, a_speed = 2\<rparr>,
                      \<lparr>a_x = 0, a_y = - 358, a_radius = 15, a_speed = 2\<rparr>],
                      blasts_list := [\<lparr>b_x = 400, b_y = 293\<rparr>]\<rparr>)),
           1 / 10, False,
           empty_dict(''score'' \<mapsto> PyFloat (121 / 10), ''alive'' \<mapsto> PyBool True)),
          shield_env
            \<lparr>score := 121 / 10,
             asteroids := [\<lparr>a_x = 400, a_y = 242, a_radius = 40, a_speed = 2\<rparr>,
                      \<lparr>a_x = 0, a_y = - 358, a_radius = 15, a_speed = 2\<rparr>,
                      \<lparr>a_x = 0, a_y = - 358, a_radius = 15, a_speed = 2\<rparr>,
                      \<lparr>a_x = 0, a_y = - 358, a_radius = 15, a_speed = 2\<rparr>,
                      \<lparr>a_x = 0, a_y = - 358, a_radius = 15, a_speed = 2\<rparr>,
                      \<lparr>a_x = 0, a_y = - 358, a_radius = 15, a_speed = 2\<rparr>,
                      \<lparr>a_x = 0, a_y = - 358, a_radius = 15, a_speed = 2\<rparr>,
                      \<lparr>a_x = 0, a_y = - 358, a_radius = 15, a_speed = 2\<rparr>],
             blasts_list := [\<lparr>b_x = 400, b_y = 293\<rparr>]\<rparr>)"
  unfolding idle_end
  by (simp add: step_def shoot_def move_player_def move_asteroids_def move_blasts_def
      check_blast_hits_def check_collisions_def blast_hit_def distance_le_iff no_keys_def
      shield_env_def Let_def clip_def game_constants)

lemma step_before_shield:
  "step PyNone no_keys []
     (shield_env
        \<lparr>score := 121 / 10,
         asteroids := [\<lparr>a_x = 400, a_y = 242, a_radius = 40, a_speed = 2\<rparr>,
                      \<lparr>a_x = 0, a_y = - 358, a_radius = 15, a_speed = 2\<rparr>,
                      \<lparr>a_x = 0, a_y = - 358, a_radius = 15, a_speed = 2\<rparr>,
                      \<lparr>a_x = 0, a_y = - 358, a_radius = 15, a_speed = 2\<rparr>,
                      \<lparr>a_x = 0, a_y = - 358, a_radius = 15, a_speed = 2\<rparr>,
                      \<lparr>a_x = 0, a_y = - 358, a_radius = 15, a_speed = 2\<rparr>,
                      \<lparr>a_x = 0, a_y = - 358, a_radius = 15, a_speed = 2\<rparr>,
                      \<lparr>a_x = 0, a_y = - 358, a_radius = 15, a_speed = 2\<rparr>],
         blasts_list := [\<lparr>b_x = 400, b_y = 293\<rparr>]\<rparr>) =
     Inr ((Some (get_observation shield_env), 1 / 10, False,
           empty_dict(''score'' \<mapsto> PyFloat (61 / 5), ''alive'' \<mapsto> PyBool True)),
          shield_env)"
  by (simp add: step_def move_player_def move_asteroids_def move_blasts_def
      check_blast_hits_def check_collisions_def blast_hit_def distance_le_iff no_keys_def
      shield_env_def Let_def clip_def game_constants)

lemma reachable_shield: "reachable shield_env"
proof -
  have "reachable (flight_env 0 120)" by (rule reachable_idle) simp
  from this step_shoot_at_120 have "reachable
     (shield_env
        \<lparr>score := 121 / 10,
         asteroids := [\<lparr>a_x = 400, a_y = 242, a_radius = 40, a_speed = 2\<rparr>,
                      \<lparr>a_x = 0, a_y = - 358, a_radius = 15, a_speed = 2\<rparr>,
                      \<lparr>a_x = 0, a_y = - 358, a_radius = 15, a_speed = 2\<rparr>,
                      \<lparr>a_x = 0, a_y = - 358, a_radius = 15, a_speed = 2\<rparr>,
                      \<lparr>a_x = 0, a_y = - 358, a_radius = 15, a_speed = 2\<rparr>,
                      \<lparr>a_x = 0, a_y = - 358, a_radius = 15, a_speed = 2\<rparr>,
                      \<lparr>a_x = 0, a_y = - 358, a_radius = 15, a_speed = 2\<rparr>,
                      \<lparr>a_x = 0, a_y = - 358, a_radius = 15, a_speed = 2\<rparr>],
         blasts_list := [\<lparr>b_x = 400, b_y = 293\<rparr>]\<rparr>)"
    by (rule reach_step)
  from this step_before_shield show ?thesis by (rule reach_step)
qed

text \<open>
  Claim C6 as worded tests the collision after the movement updates. In the reachable
  environment \<open>shield_env\<close> (lemma \<open>reachable_shield\<close>) the first obstacle moves to
  \<open>(400, 246)\<close>, within \<open>15 + 40\<close> of the player at \<open>(400, 300)\<close>, and the projectile moves
  to \<open>(400, 279)\<close>, within the obstacle's radius: the obstacle is replaced before the
  collision test, and step returns reward \<open>0.1\<close> and \<open>done = False\<close>.
\<close>

theorem struck_obstacle_no_collision:
  "\<lparr>a_x = 400, a_y = 246, a_radius = 40, a_speed = 2\<rparr>
     \<in> set (asteroids (move_blasts (move_asteroids (move_player no_keys shield_env))))
   \<and> self_x (move_blasts (move_asteroids (move_player no_keys shield_env))) = 400
   \<and> self_y (move_blasts (move_asteroids (move_player no_keys shield_env))) = 300
   \<and> radius (move_blasts (move_asteroids (move_player no_keys shield_env))) = 15
   \<and> distance (400, 300) (400, 246) \<le> 15 + 40
   \<and> check_collisions (move_blasts (move_asteroids (move_player no_keys shield_env)))
   \<and> step PyNone no_keys [] shield_env =
       Inr ((Some (get_observation shield_after), 1 / 10, False,
             empty_dict(''score'' \<mapsto> PyFloat (123 / 10), ''alive'' \<mapsto> PyBool True)),
            shield_after)"
proof -
  have "\<lparr>a_x = 400, a_y = 246, a_radius = 40, a_speed = 2\<rparr>
     \<in> set (asteroids (move_blasts (move_asteroids (move_player no_keys shield_env))))"
    "self_x (move_blasts (move_asteroids (move_player no_keys shield_env))) = 400"
    "self_y (move_blasts (move_asteroids (move_player no_keys shield_env))) = 300"
    "radius (move_blasts (move_asteroids (move_player no_keys shield_env))) = 15"
    unfolding shield_moves by (simp_all add: shield_env_def)
  moreover have "distance (400, 300) (400, 246) \<le> 15 + 40"
    by (simp add: distance_le_iff)
  ultimately show ?thesis
    using shield_collision_after_moves step_shield by blast
qed

end
